theory Spec2Isabelle
  imports Main "HOL-Library.Sublist"
begin

section \<open>Data model of \<^verbatim>\<open>main.py\<close>\<close>

text \<open>
  The program is sequencing glue around external collaborators (the remote reasoning
  service, the transcription and speech services, the microphone, the file system and the
  command-execution agent). Each collaborator call is logged as an \<open>event\<close> in a trace
  that is part of the program state, and the collaborator's answer is looked up in an
  environment record \<open>env\<close>. Every answer may depend on the whole trace so far, hence on
  every earlier call and its arguments.

  Strings are the UTF-8 bytes of Python's strings. \<^verbatim>\<open>client\<close> is bound once at import time
  to an \<^verbatim>\<open>OpenAI\<close> object and never rebound, so the two \<^verbatim>\<open>client is None\<close> tests of the source
  are always false and their branches are left out.
\<close>

datatype exc =
    Exception string
  | WaitTimeoutError string
  | UnknownValueError string
  | RequestError string
  | IndexError string
  | AttributeError string
  | KeyboardInterrupt

text \<open>\<^verbatim>\<open>except Exception\<close> catches every class above but \<^verbatim>\<open>KeyboardInterrupt\<close>.\<close>

fun is_Exception :: "exc \<Rightarrow> bool" where
  "is_Exception KeyboardInterrupt = False"
| "is_Exception _ = True"

text \<open>\<^verbatim>\<open>str(e)\<close>, as the f-strings of the handlers format it.\<close>

fun str_exc :: "exc \<Rightarrow> string" where
  "str_exc (Exception m) = m"
| "str_exc (WaitTimeoutError m) = m"
| "str_exc (UnknownValueError m) = m"
| "str_exc (RequestError m) = m"
| "str_exc (IndexError m) = m"
| "str_exc (AttributeError m) = m"
| "str_exc KeyboardInterrupt = []"

datatype content_block = Text_block string | Other_block string

record message =
  role :: string
  content :: "content_block list"

datatype event =
    Print string
  | Sleep nat
  | Threads_retrieve string
  | Threads_create
  | Assistants_retrieve string
  | Assistants_create string string string string
  | Messages_create string string string
  | Runs_create string string string
  | Runs_retrieve string string
  | Messages_list string string nat
  | Speech_create string string string
  | From_file string
  | Play string
  | Microphone_enter
  | Microphone_exit
  | Adjust_for_ambient_noise
  | Listen nat nat
  | Named_temporary_file
  | Temp_write string string
  | File_open string
  | Transcriptions_create string string
  | Unlink string
  | Interpreter_chat string
  | Print_transcribe_time

text \<open>The names that \<^verbatim>\<open>from config import *\<close> brings in; the module is a parameter.\<close>

record config =
  OPENAI_API_KEY :: "string option"
  OPENAI_MODEL :: string
  USER_NAME :: string
  ASSISTANT_ID :: "string option"
  ATHENA_INSTRUCTIONS :: string
  ATHENA_TOOLS :: string
  SPEECH_RECOGNITION_TIMEOUT :: nat
  SPEECH_RECOGNITION_PHRASE_TIME_LIMIT :: nat

text \<open>
  The collaborators. Each field answers the call that is the last event of the trace it
  receives: \<open>Inl e\<close> (or \<open>Some e\<close> for a call whose value is not used) when the call raises
  \<open>e\<close>, the value read from the returned object otherwise. \<open>client_api_key\<close> is the
  attribute \<^verbatim>\<open>client.api_key\<close> of the client object: what the constructor at line 13 stored,
  which is the key of the configuration or, without one, the key of the process environment.
\<close>

record env =
  client_api_key :: "string option"
  threads_retrieve :: "event list \<Rightarrow> exc option"
  threads_create :: "event list \<Rightarrow> exc + string"
  assistants_retrieve :: "event list \<Rightarrow> exc + string"
  assistants_create :: "event list \<Rightarrow> exc + string"
  messages_create :: "event list \<Rightarrow> exc option"
  runs_create :: "event list \<Rightarrow> exc + string"
  runs_retrieve :: "event list \<Rightarrow> exc + string"
  messages_list :: "event list \<Rightarrow> exc + message list"
  speech_create :: "event list \<Rightarrow> exc + string"
  from_file :: "event list \<Rightarrow> exc + string"
  play :: "event list \<Rightarrow> exc option"
  microphone :: "event list \<Rightarrow> exc option"
  adjust_for_ambient_noise :: "event list \<Rightarrow> exc option"
  listen :: "event list \<Rightarrow> exc + string"
  named_temporary_file :: "event list \<Rightarrow> exc + string"
  temp_write :: "event list \<Rightarrow> exc option"
  file_open :: "event list \<Rightarrow> exc option"
  transcriptions_create :: "event list \<Rightarrow> exc + string"
  unlink :: "event list \<Rightarrow> exc option"
  interpreter_chat :: "event list \<Rightarrow> exc + string"

text \<open>The module globals \<^verbatim>\<open>thread_id\<close> and \<^verbatim>\<open>assistant_id\<close>, and the trace.\<close>

record state =
  thread_id :: "string option"
  assistant_id :: "string option"
  trace :: "event list"

definition emit :: "event \<Rightarrow> state \<Rightarrow> state" where
  "emit ev st = st\<lparr>trace := trace st @ [ev]\<rparr>"

definition print :: "string \<Rightarrow> state \<Rightarrow> state" where
  "print s st = emit (Print s) st"

text \<open>Python truthiness of an optional string: \<^verbatim>\<open>None\<close> and \<^verbatim>\<open>""\<close> are false.\<close>

fun truthy :: "string option \<Rightarrow> bool" where
  "truthy None = False"
| "truthy (Some s) = (s \<noteq> [])"

section \<open>Conversation session manager\<close>

text \<open>\<^verbatim>\<open>get_or_create_thread\<close>, lines 22 to 38.\<close>

definition create_thread :: "env \<Rightarrow> state \<Rightarrow> (exc + string option) \<times> state" where
  "create_thread E st =
     (let st1 = emit Threads_create st in
      case threads_create E (trace st1) of
        Inr new_id \<Rightarrow>
          (Inr (Some new_id),
           print (''New thread created with ID: '' @ new_id) (st1\<lparr>thread_id := Some new_id\<rparr>))
      | Inl e \<Rightarrow>
          if is_Exception e
          then (Inr None, print (''Error creating thread: '' @ str_exc e) st1)
          else (Inl e, st1))"

definition get_or_create_thread :: "env \<Rightarrow> state \<Rightarrow> (exc + string option) \<times> state" where
  "get_or_create_thread E st =
     (if truthy (thread_id st) then
        (let st1 = emit (Threads_retrieve (the (thread_id st))) st in
         case threads_retrieve E (trace st1) of
           None \<Rightarrow> (Inr (thread_id st), st1)
         | Some e \<Rightarrow>
             if is_Exception e
             then create_thread E (print (''Error retrieving thread: '' @ str_exc e) st1)
             else (Inl e, st1))
      else create_thread E st)"

text \<open>\<^verbatim>\<open>initialize_assistant\<close>, lines 40 to 63.\<close>

definition create_assistant :: "env \<Rightarrow> config \<Rightarrow> state \<Rightarrow> (exc + string option) \<times> state" where
  "create_assistant E C st =
     (let st1 = emit (Assistants_create ''Athena'' (ATHENA_INSTRUCTIONS C) (OPENAI_MODEL C)
                        (ATHENA_TOOLS C)) st in
      case assistants_create E (trace st1) of
        Inr new_id \<Rightarrow>
          (Inr (Some new_id),
           (print (''New assistant created with ID: '' @ new_id) st1)
             \<lparr>assistant_id := Some new_id\<rparr>)
      | Inl e \<Rightarrow>
          if is_Exception e
          then (Inr None, print (''Error creating assistant: '' @ str_exc e) st1)
          else (Inl e, st1))"

definition initialize_assistant :: "env \<Rightarrow> config \<Rightarrow> state \<Rightarrow> (exc + string option) \<times> state" where
  "initialize_assistant E C st =
     (if truthy (ASSISTANT_ID C) then
        (let st1 = emit (Assistants_retrieve (the (ASSISTANT_ID C))) st in
         case assistants_retrieve E (trace st1) of
           Inr found_id \<Rightarrow>
             (Inr (Some found_id),
              (print (''Using existing assistant with ID: '' @ found_id) st1)
                \<lparr>assistant_id := Some found_id\<rparr>)
         | Inl e \<Rightarrow>
             if is_Exception e
             then create_assistant E C (print (''Error retrieving assistant: '' @ str_exc e) st1)
             else (Inl e, st1))
      else create_assistant E C st)"

text \<open>
  The poll loop of \<^verbatim>\<open>analyze_audio\<close>, lines 87 to 93. It leaves by \<^verbatim>\<open>break\<close>, by
  \<^verbatim>\<open>return\<close> or by an exception of the status call; \<open>None\<close> is the loop that never
  leaves.
\<close>

datatype poll_exit = Poll_break | Poll_return string | Poll_raise exc

partial_function (option) poll_run :: "env \<Rightarrow> string \<Rightarrow> string \<Rightarrow> state \<Rightarrow> (poll_exit \<times> state) option"
where
  "poll_run E tid rid st =
     (let st1 = emit (Runs_retrieve tid rid) st in
      case runs_retrieve E (trace st1) of
        Inl e \<Rightarrow> Some (Poll_raise e, st1)
      | Inr status \<Rightarrow>
          if status = ''completed'' then Some (Poll_break, st1)
          else if status \<in> set [''failed'', ''cancelled'', ''expired'']
          then Some (Poll_return (''Run failed with status: '' @ status), st1)
          else poll_run E tid rid (emit (Sleep 1) st1))"

declare poll_run.simps [code]

text \<open>Lines 95 to 106: the reply is read from the newest message.\<close>

definition no_response :: "config \<Rightarrow> string" where
  "no_response C =
     ''I'm sorry, '' @ USER_NAME C @ '', I didn't receive a response. How else can I assist you?''"

fun first_text :: "content_block list \<Rightarrow> exc + string" where
  "first_text [] = Inl (IndexError ''list index out of range'')"
| "first_text (Text_block v # _) = Inr v"
| "first_text (Other_block cls # _) =
     Inl (AttributeError ([CHR 0x27] @ cls @ [CHR 0x27] @ '' object has no attribute 'text'' @ [CHR 0x27]))"

definition fetch_reply :: "env \<Rightarrow> config \<Rightarrow> string \<Rightarrow> state \<Rightarrow> (exc + string) \<times> state" where
  "fetch_reply E C tid st =
     (let st1 = emit (Messages_list tid ''desc'' 1) st in
      case messages_list E (trace st1) of
        Inl e \<Rightarrow> (Inl e, st1)
      | Inr data \<Rightarrow>
          (case data of
             [] \<Rightarrow> (Inr (no_response C), st1)
           | latest_message # _ \<Rightarrow>
               if role latest_message = ''assistant''
               then (first_text (content latest_message), st1)
               else (Inr (no_response C), st1)))"

text \<open>The body of the \<^verbatim>\<open>try\<close> of \<^verbatim>\<open>analyze_audio\<close>, lines 70 to 106.\<close>

definition run_instructions :: "config \<Rightarrow> string" where
  "run_instructions C =
     ''Remember to address the user as '' @ USER_NAME C @
     '' and maintain your friendly, supportive demeanor.'' @ [CHR 0x0A] @
     ''            If the user wants to start an Open Interpreter session, inform them to say 'Start Open Interpreter'.''"

definition await_reply :: "env \<Rightarrow> config \<Rightarrow> string \<Rightarrow> string \<Rightarrow> state \<Rightarrow> ((exc + string) \<times> state) option" where
  "await_reply E C tid rid st =
     (case poll_run E tid rid st of
        None \<Rightarrow> None
      | Some (Poll_raise e, st1) \<Rightarrow> Some (Inl e, st1)
      | Some (Poll_return msg, st1) \<Rightarrow> Some (Inr msg, st1)
      | Some (Poll_break, st1) \<Rightarrow> Some (fetch_reply E C tid st1))"

definition submit_query :: "env \<Rightarrow> config \<Rightarrow> string \<Rightarrow> string \<Rightarrow> state \<Rightarrow> ((exc + string) \<times> state) option" where
  "submit_query E C tid user_prompt st =
     (let st1 = emit (Messages_create tid ''user'' user_prompt) st in
      case messages_create E (trace st1) of
        Some e \<Rightarrow> Some (Inl e, st1)
      | None \<Rightarrow>
          (let st2 = emit (Runs_create tid (the (assistant_id st1)) (run_instructions C)) st1 in
           case runs_create E (trace st2) of
             Inl e \<Rightarrow> Some (Inl e, st2)
           | Inr rid \<Rightarrow> await_reply E C tid rid st2))"

definition thread_failure :: string where
  "thread_failure = ''Failed to create or retrieve a thread. Cannot process the request.''"

definition analyze_body :: "env \<Rightarrow> config \<Rightarrow> string \<Rightarrow> state \<Rightarrow> ((exc + string) \<times> state) option" where
  "analyze_body E C user_prompt st =
     (case get_or_create_thread E st of
        (Inl e, st1) \<Rightarrow> Some (Inl e, st1)
      | (Inr h, st1) \<Rightarrow>
          if \<not> truthy h then Some (Inr thread_failure, st1)
          else submit_query E C (the h) user_prompt st1)"

text \<open>\<^verbatim>\<open>analyze_audio\<close>, lines 65 to 110: the guard, the body and the handler.
  The guard reads \<^verbatim>\<open>client.api_key\<close>, not the configuration.
  The handler catches what \<^verbatim>\<open>except Exception\<close> catches; an interrupt passes through.\<close>

definition disabled_message :: string where
  "disabled_message =
     ''OpenAI functionalities are disabled or assistant is not initialized. Cannot analyze audio.''"

definition apology :: "config \<Rightarrow> string" where
  "apology C =
     ''I'm sorry, '' @ USER_NAME C @
     '', I encountered an error while processing your request. How can I help you differently?''"

definition analyze_audio :: "env \<Rightarrow> config \<Rightarrow> string \<Rightarrow> state \<Rightarrow> ((exc + string) \<times> state) option" where
  "analyze_audio E C user_prompt st =
     (if \<not> truthy (client_api_key E) \<or> \<not> truthy (assistant_id st)
      then Some (Inr disabled_message, st)
      else
        (case analyze_body E C user_prompt st of
           None \<Rightarrow> None
         | Some (Inl e, st1) \<Rightarrow>
             if is_Exception e
             then Some (Inr (apology C), print (''Error in analyze_audio: '' @ str_exc e) st1)
             else Some (Inl e, st1)
         | Some (Inr reply, st1) \<Rightarrow> Some (Inr reply, st1)))"

section \<open>Speech output and capture\<close>

text \<open>\<^verbatim>\<open>play_audio\<close>, lines 134 to 152. Only an exception that \<^verbatim>\<open>except Exception\<close> does not
  catch leaves it.\<close>

definition play_audio_handler :: "exc \<Rightarrow> state \<Rightarrow> exc option \<times> state" where
  "play_audio_handler e st =
     (if is_Exception e then (None, print (''Error in play_audio: '' @ str_exc e) st)
      else (Some e, st))"

definition play_audio :: "env \<Rightarrow> string \<Rightarrow> string \<Rightarrow> state \<Rightarrow> exc option \<times> state" where
  "play_audio E text voice st =
     (let st1 = emit (Speech_create ''tts-1'' voice text) st in
      case speech_create E (trace st1) of
        Inl e \<Rightarrow> play_audio_handler e st1
      | Inr response_content \<Rightarrow>
          (let st2 = emit (From_file response_content) st1 in
           case from_file E (trace st2) of
             Inl e \<Rightarrow> play_audio_handler e st2
           | Inr audio \<Rightarrow>
               (let st3 = emit (Play audio) st2 in
                case play E (trace st3) of
                  Some e \<Rightarrow> play_audio_handler e st3
                | None \<Rightarrow> (None, st3))))"

text \<open>
  \<^verbatim>\<open>str.strip()\<close> removes the whitespace characters of Unicode from both ends. On UTF-8
  bytes these are the byte sequences below: the ten of ASCII, then U+0085, U+00A0, U+1680,
  U+2000 to U+200A, U+2028, U+2029, U+202F, U+205F and U+3000. Each round removes one
  such sequence from the front, if there is one; a round removes at least one byte, so as
  many rounds as the string has bytes are enough. The end is stripped on the reversed
  string with the reversed sequences; none of them is the tail of a longer character,
  since each starts with an ASCII byte or a lead byte.
\<close>

definition whitespace :: "string list" where
  "whitespace =
     [[CHR 0x20], [CHR 0x09], [CHR 0x0A], [CHR 0x0B], [CHR 0x0C], [CHR 0x0D],
      [CHR 0x1C], [CHR 0x1D], [CHR 0x1E], [CHR 0x1F],
      [CHR 0xC2, CHR 0x85], [CHR 0xC2, CHR 0xA0], [CHR 0xE1, CHR 0x9A, CHR 0x80],
      [CHR 0xE2, CHR 0x80, CHR 0x80], [CHR 0xE2, CHR 0x80, CHR 0x81],
      [CHR 0xE2, CHR 0x80, CHR 0x82], [CHR 0xE2, CHR 0x80, CHR 0x83],
      [CHR 0xE2, CHR 0x80, CHR 0x84], [CHR 0xE2, CHR 0x80, CHR 0x85],
      [CHR 0xE2, CHR 0x80, CHR 0x86], [CHR 0xE2, CHR 0x80, CHR 0x87],
      [CHR 0xE2, CHR 0x80, CHR 0x88], [CHR 0xE2, CHR 0x80, CHR 0x89],
      [CHR 0xE2, CHR 0x80, CHR 0x8A], [CHR 0xE2, CHR 0x80, CHR 0xA8],
      [CHR 0xE2, CHR 0x80, CHR 0xA9], [CHR 0xE2, CHR 0x80, CHR 0xAF],
      [CHR 0xE2, CHR 0x81, CHR 0x9F], [CHR 0xE3, CHR 0x80, CHR 0x80]]"

primrec lstrip_n :: "nat \<Rightarrow> string list \<Rightarrow> string \<Rightarrow> string" where
  "lstrip_n 0 ws s = s"
| "lstrip_n (Suc n) ws s =
     (case find (\<lambda>w. prefix w s) ws of
        None \<Rightarrow> s
      | Some w \<Rightarrow> lstrip_n n ws (drop (length w) s))"

definition lstrip :: "string list \<Rightarrow> string \<Rightarrow> string" where
  "lstrip ws s = lstrip_n (length s) ws s"

definition strip :: "string \<Rightarrow> string" where
  "strip s = rev (lstrip (map rev whitespace) (rev (lstrip whitespace s)))"

text \<open>
  \<^verbatim>\<open>str.lower()\<close>, on the ASCII letters. The program only compares the result with phrases
  of ASCII letters and blanks without a \<^verbatim>\<open>k\<close>: a string with a character outside ASCII
  differs from each phrase after Python's lowering (only the Kelvin sign lowers into
  ASCII, to \<^verbatim>\<open>k\<close>) as it does here, where its bytes stay as they are.
\<close>

definition lower_char :: "char \<Rightarrow> char" where
  "lower_char c =
     (case map_of (zip ''ABCDEFGHIJKLMNOPQRSTUVWXYZ'' ''abcdefghijklmnopqrstuvwxyz'') c of
        None \<Rightarrow> c
      | Some d \<Rightarrow> d)"

definition lower :: "string \<Rightarrow> string" where
  "lower s = map lower_char s"

text \<open>
  \<^verbatim>\<open>transcribe_audio\<close>, lines 184 to 206. The temporary file is made with
  \<^verbatim>\<open>delete=False\<close>, so only \<^verbatim>\<open>os.unlink\<close> removes it. The elapsed time that line 200 prints
  is not modelled.
\<close>

definition transcribe_handler :: "exc \<Rightarrow> state \<Rightarrow> (exc + string option) \<times> state" where
  "transcribe_handler e st =
     (if is_Exception e then (Inr None, print (''Error in transcribe_audio: '' @ str_exc e) st)
      else (Inl e, st))"

definition transcribe_audio :: "env \<Rightarrow> string \<Rightarrow> state \<Rightarrow> (exc + string option) \<times> state" where
  "transcribe_audio E audio st =
     (let st1 = emit Named_temporary_file st in
      case named_temporary_file E (trace st1) of
        Inl e \<Rightarrow> transcribe_handler e st1
      | Inr temp_audio_path \<Rightarrow>
          (let st2 = emit (Temp_write temp_audio_path audio) st1 in
           case temp_write E (trace st2) of
             Some e \<Rightarrow> transcribe_handler e st2
           | None \<Rightarrow>
               (let st3 = emit (File_open temp_audio_path) st2 in
                case file_open E (trace st3) of
                  Some e \<Rightarrow> transcribe_handler e st3
                | None \<Rightarrow>
                    (let st4 = emit (Transcriptions_create ''whisper-1'' temp_audio_path) st3 in
                     case transcriptions_create E (trace st4) of
                       Inl e \<Rightarrow> transcribe_handler e st4
                     | Inr text \<Rightarrow>
                         (let transcript = strip text;
                              st5 = emit Print_transcribe_time st4;
                              st6 = emit (Unlink temp_audio_path) st5 in
                          case unlink E (trace st6) of
                            Some e \<Rightarrow> transcribe_handler e st6
                          | None \<Rightarrow> (Inr (Some transcript), st6))))))"

text \<open>\<^verbatim>\<open>get_audio_input\<close>, lines 153 to 182. Leaving the \<^verbatim>\<open>with\<close> block closes the
  microphone on every path.\<close>

definition transcribe_captured :: "env \<Rightarrow> string \<Rightarrow> state \<Rightarrow> (exc + string option) \<times> state" where
  "transcribe_captured E audio st =
     (case transcribe_audio E audio st of
        (Inr transcript, st1) \<Rightarrow>
          if truthy transcript
          then (Inr transcript, print (''Transcribed audio: '' @ the transcript) st1)
          else (Inr None, print ''No speech detected or transcription failed.'' st1)
      | (Inl (UnknownValueError m), st1) \<Rightarrow>
          (Inr None, print ''Speech recognition could not understand the audio.'' st1)
      | (Inl (RequestError m), st1) \<Rightarrow>
          (Inr None,
           print (''Could not request results from speech recognition service; '' @ m) st1)
      | (Inl e, st1) \<Rightarrow> (Inl e, st1))"

definition get_audio_input :: "env \<Rightarrow> config \<Rightarrow> state \<Rightarrow> (exc + string option) \<times> state" where
  "get_audio_input E C st =
     (let st1 = emit Microphone_enter st in
      case microphone E (trace st1) of
        Some e \<Rightarrow> (Inl e, st1)
      | None \<Rightarrow>
          (let st2 = emit Adjust_for_ambient_noise (print ''Listening for speech...'' st1) in
           case adjust_for_ambient_noise E (trace st2) of
             Some e \<Rightarrow> (Inl e, emit Microphone_exit st2)
           | None \<Rightarrow>
               (let st3 = emit (Listen (SPEECH_RECOGNITION_TIMEOUT C)
                                  (SPEECH_RECOGNITION_PHRASE_TIME_LIMIT C)) st2 in
                case listen E (trace st3) of
                  Inl (WaitTimeoutError m) \<Rightarrow>
                    (Inr None,
                     emit Microphone_exit
                       (print ''No speech detected within the timeout period.'' st3))
                | Inl e \<Rightarrow> (Inl e, emit Microphone_exit st3)
                | Inr audio \<Rightarrow>
                    transcribe_captured E audio
                      (emit Microphone_exit (print ''Processing...'' st3)))))"

section \<open>Command-execution session\<close>

text \<open>\<^verbatim>\<open>open_interpreter_session\<close>, lines 112 to 132. One pass of the loop body gives
  \<open>Inr None\<close> when the loop goes on and \<open>Inr (Some r)\<close> when the function returns \<open>r\<close>.\<close>

definition speak_onyx :: "env \<Rightarrow> string \<Rightarrow> state \<Rightarrow> (exc + string option) \<times> state" where
  "speak_onyx E text st =
     (case play_audio E text ''onyx'' st of
        (Some e, st1) \<Rightarrow> (Inl e, st1)
      | (None, st1) \<Rightarrow> (Inr None, st1))"

definition interpreter_turn :: "env \<Rightarrow> config \<Rightarrow> state \<Rightarrow> (exc + string option) \<times> state" where
  "interpreter_turn E C st =
     (case get_audio_input E C st of
        (Inl e, st1) \<Rightarrow> (Inl e, st1)
      | (Inr None, st1) \<Rightarrow>
          (Inr None,
           print ''No input detected. Waiting for your command in Open Interpreter mode.'' st1)
      | (Inr (Some user_input), st1) \<Rightarrow>
          if lower user_input = ''exit interpreter'' then
            (case play_audio E ''Exiting Open Interpreter mode.'' ''onyx'' st1 of
               (Some e, st2) \<Rightarrow> (Inl e, st2)
             | (None, st2) \<Rightarrow> (Inr (Some ''Open Interpreter session ended.''), st2))
          else
            (let st2 = emit (Interpreter_chat user_input) st1 in
             case interpreter_chat E (trace st2) of
               Inr response \<Rightarrow>
                 speak_onyx E response (print (''Open Interpreter: '' @ response) st2)
             | Inl e \<Rightarrow>
                 if is_Exception e
                 then (let error_message = ''Error in Open Interpreter: '' @ str_exc e in
                       speak_onyx E error_message (print error_message st2))
                 else (Inl e, st2)))"

partial_function (option) interpreter_loop :: "env \<Rightarrow> config \<Rightarrow> state \<Rightarrow> ((exc + string) \<times> state) option"
where
  "interpreter_loop E C st =
     (case interpreter_turn E C st of
        (Inl e, st1) \<Rightarrow> Some (Inl e, st1)
      | (Inr (Some r), st1) \<Rightarrow> Some (Inr r, st1)
      | (Inr None, st1) \<Rightarrow> interpreter_loop E C st1)"

declare interpreter_loop.simps [code]

definition open_interpreter_session :: "env \<Rightarrow> config \<Rightarrow> state \<Rightarrow> ((exc + string) \<times> state) option" where
  "open_interpreter_session E C st =
     (case play_audio E ''Entering Open Interpreter mode. Say 'Exit Interpreter' to end the session.''
             ''onyx''
             (print ''Starting Open Interpreter session. Say 'Exit Interpreter' to end the session.'' st) of
        (Some e, st1) \<Rightarrow> Some (Inl e, st1)
      | (None, st1) \<Rightarrow> interpreter_loop E C st1)"

section \<open>Turn-taking orchestrator\<close>

text \<open>
  \<^verbatim>\<open>main\<close>, lines 208 to 254. \<open>main_try\<close> is the body of the \<^verbatim>\<open>try\<close> of one pass of the loop
  (lines 225 to 245); it ends by \<^verbatim>\<open>continue\<close>, by \<^verbatim>\<open>break\<close>, by reaching its last line, or
  by an exception.
\<close>

datatype flow = Continue | Break | Fall_through

definition exit_words :: "string list" where
  "exit_words = [''exit'', ''quit'', ''goodbye'']"

definition farewell :: "config \<Rightarrow> string" where
  "farewell C = ''Goodbye, '' @ USER_NAME C @ ''! Have a great day.''"

definition speak_and_pause :: "env \<Rightarrow> string \<Rightarrow> state \<Rightarrow> ((exc + flow) \<times> state) option" where
  "speak_and_pause E text st =
     (case play_audio E text ''nova'' (print (''Athena: '' @ text) st) of
        (Some e, st1) \<Rightarrow> Some (Inl e, st1)
      | (None, st1) \<Rightarrow> Some (Inr Fall_through, emit (Sleep 1) st1))"

definition dispatch :: "env \<Rightarrow> config \<Rightarrow> string \<Rightarrow> state \<Rightarrow> ((exc + flow) \<times> state) option" where
  "dispatch E C user_prompt st =
     (if lower user_prompt = ''start open interpreter'' then
        (case open_interpreter_session E C st of
           None \<Rightarrow> None
         | Some (Inl e, st1) \<Rightarrow> Some (Inl e, st1)
         | Some (Inr response, st1) \<Rightarrow> speak_and_pause E response st1)
      else
        (case analyze_audio E C user_prompt st of
           None \<Rightarrow> None
         | Some (Inl e, st1) \<Rightarrow> Some (Inl e, st1)
         | Some (Inr analysis, st1) \<Rightarrow> speak_and_pause E analysis st1))"

definition main_try :: "env \<Rightarrow> config \<Rightarrow> state \<Rightarrow> ((exc + flow) \<times> state) option" where
  "main_try E C st =
     (case get_audio_input E C st of
        (Inl e, st1) \<Rightarrow> Some (Inl e, st1)
      | (Inr None, st1) \<Rightarrow>
          Some (Inr Continue, print ''No input detected. Waiting for your command.'' st1)
      | (Inr (Some user_prompt), st1) \<Rightarrow>
          if lower user_prompt \<in> set exit_words then
            (case play_audio E (farewell C) ''nova'' (print (''Athena: '' @ farewell C) st1) of
               (Some e, st2) \<Rightarrow> Some (Inl e, st2)
             | (None, st2) \<Rightarrow> Some (Inr Break, st2))
          else dispatch E C user_prompt (print (USER_NAME C @ '': '' @ user_prompt) st1))"

text \<open>The two handlers of the loop, lines 246 to 252. An exception raised inside a
  handler leaves \<^verbatim>\<open>main\<close>.\<close>

definition interrupt_handler :: "env \<Rightarrow> config \<Rightarrow> state \<Rightarrow> exc option \<times> state" where
  "interrupt_handler E C st =
     play_audio E (''Thank you for chatting with me. Goodbye, '' @ USER_NAME C @ ''!'') ''nova''
       (print ([CHR 0x0A] @ ''Thank you for chatting with Athena. Goodbye, '' @ USER_NAME C @ ''!'')
          st)"

definition error_handler :: "env \<Rightarrow> exc \<Rightarrow> state \<Rightarrow> exc option \<times> state" where
  "error_handler E e st =
     play_audio E (''An error occurred: '' @ str_exc e @ ''. I'm ready to assist with something else.'')
       ''nova''
       (print (''An error occurred: '' @ str_exc e @
               ''. Athena is ready to assist with something else.'') st)"

text \<open>The \<^verbatim>\<open>while True\<close> of \<^verbatim>\<open>main\<close>: \<open>Some (None, st)\<close> is the normal return, \<open>Some (Some e, st)\<close>
  an exception that leaves \<^verbatim>\<open>main\<close>, \<open>None\<close> the loop that never ends.\<close>

partial_function (option) main_loop :: "env \<Rightarrow> config \<Rightarrow> state \<Rightarrow> (exc option \<times> state) option"
where
  "main_loop E C st =
     (case main_try E C st of
        None \<Rightarrow> None
      | Some (Inr Break, st1) \<Rightarrow> Some (None, st1)
      | Some (Inr Continue, st1) \<Rightarrow> main_loop E C st1
      | Some (Inr Fall_through, st1) \<Rightarrow> main_loop E C (print ''Listening for speech...'' st1)
      | Some (Inl e, st1) \<Rightarrow>
          if is_Exception e then
            (case error_handler E e st1 of
               (Some e', st2) \<Rightarrow> Some (Some e', st2)
             | (None, st2) \<Rightarrow> main_loop E C (print ''Listening for speech...'' st2))
          else Some (interrupt_handler E C st1))"

declare main_loop.simps [code]

definition main :: "env \<Rightarrow> config \<Rightarrow> state \<Rightarrow> (exc option \<times> state) option" where
  "main E C st =
     (case initialize_assistant E C
             (print (''Using model: '' @ OPENAI_MODEL C)
                (print (''Initializing Athena, '' @ USER_NAME C @ [CHR 0x27] @
                        ''s personal AI companion...'') st)) of
        (Inl e, st1) \<Rightarrow> Some (Some e, st1)
      | (Inr h, st1) \<Rightarrow>
          (let st2 = st1\<lparr>assistant_id := h\<rparr> in
           if \<not> truthy h then Some (None, print ''Failed to initialize assistant. Exiting.'' st2)
           else
             (let welcome_message = ''Hey '' @ USER_NAME C @ ''! What's up!'' in
              case play_audio E welcome_message ''nova'' (print (''Athena: '' @ welcome_message) st2) of
                (Some e, st3) \<Rightarrow> Some (Some e, st3)
              | (None, st3) \<Rightarrow> main_loop E C (print ''Listening for speech...'' st3))))"

section \<open>Vocabulary of the properties\<close>

text \<open>Kinds of events. The steps of thread acquisition, the steps of a query that
  follow it, and the calls that go to a remote service.\<close>

fun thread_step :: "event \<Rightarrow> bool" where
  "thread_step (Threads_retrieve _) = True"
| "thread_step Threads_create = True"
| "thread_step (Print _) = True"
| "thread_step _ = False"

fun query_step :: "event \<Rightarrow> bool" where
  "query_step (Messages_create _ _ _) = True"
| "query_step (Runs_create _ _ _) = True"
| "query_step (Runs_retrieve _ _) = True"
| "query_step (Messages_list _ _ _) = True"
| "query_step _ = False"

fun remote_call :: "event \<Rightarrow> bool" where
  "remote_call (Print _) = False"
| "remote_call (Sleep _) = False"
| "remote_call Microphone_enter = False"
| "remote_call Microphone_exit = False"
| "remote_call Adjust_for_ambient_noise = False"
| "remote_call (Listen _ _) = False"
| "remote_call Named_temporary_file = False"
| "remote_call (Temp_write _ _) = False"
| "remote_call (File_open _) = False"
| "remote_call (Unlink _) = False"
| "remote_call (From_file _) = False"
| "remote_call (Play _) = False"
| "remote_call Print_transcribe_time = False"
| "remote_call _ = True"

text \<open>\<open>extends P st st'\<close>: the trace of \<open>st'\<close> is the trace of \<open>st\<close> followed by events
  that all satisfy \<open>P\<close>.\<close>

definition extends :: "(event \<Rightarrow> bool) \<Rightarrow> state \<Rightarrow> state \<Rightarrow> bool" where
  "extends P st st' =
     (take (length (trace st)) (trace st') = trace st \<and>
      list_all P (drop (length (trace st)) (trace st')))"

text \<open>The poll loop seen from outside: the events of \<open>k\<close> polls that did not end the
  loop, the answer to the poll after them, the state when that poll has been made, and
  what the loop does with one answer (\<open>None\<close>: sleep and poll again).\<close>

fun polls :: "string \<Rightarrow> string \<Rightarrow> nat \<Rightarrow> event list" where
  "polls tid rid 0 = []"
| "polls tid rid (Suc k) = Runs_retrieve tid rid # Sleep 1 # polls tid rid k"

definition status_at :: "env \<Rightarrow> string \<Rightarrow> string \<Rightarrow> state \<Rightarrow> nat \<Rightarrow> exc + string" where
  "status_at E tid rid st k =
     runs_retrieve E (trace st @ polls tid rid k @ [Runs_retrieve tid rid])"

definition after_polls :: "string \<Rightarrow> string \<Rightarrow> nat \<Rightarrow> state \<Rightarrow> state" where
  "after_polls tid rid k st =
     st\<lparr>trace := trace st @ polls tid rid k @ [Runs_retrieve tid rid]\<rparr>"

fun exit_of :: "exc + string \<Rightarrow> poll_exit option" where
  "exit_of (Inl e) = Some (Poll_raise e)"
| "exit_of (Inr status) =
     (if status = ''completed'' then Some Poll_break
      else if status \<in> set [''failed'', ''cancelled'', ''expired'']
      then Some (Poll_return (''Run failed with status: '' @ status))
      else None)"

text \<open>
  The \<^verbatim>\<open>except\<close> clause of \<^verbatim>\<open>analyze_audio\<close>, lines 108 to 110, applied to what the body
  of the \<^verbatim>\<open>try\<close> gave.
\<close>

fun handled :: "config \<Rightarrow> (exc + string) \<times> state \<Rightarrow> (exc + string) \<times> state" where
  "handled C (Inr reply, st) = (Inr reply, st)"
| "handled C (Inl e, st) =
     (if is_Exception e
      then (Inr (apology C), print (''Error in analyze_audio: '' @ str_exc e) st)
      else (Inl e, st))"

text \<open>
  How far a call of \<^verbatim>\<open>analyze_audio\<close> has come. \<open>thread_acquired\<close>: the guard passed and
  thread acquisition gave the handle \<open>tid\<close> in state \<open>st1\<close>. \<open>run_created\<close>: moreover the
  message was appended and the run \<open>rid\<close> was created, which leaves state \<open>st2\<close>, the state
  in which the poll loop starts.
\<close>

definition thread_acquired :: "env \<Rightarrow> state \<Rightarrow> string \<Rightarrow> state \<Rightarrow> bool" where
  "thread_acquired E st tid st1 =
     (truthy (client_api_key E) \<and> truthy (assistant_id st) \<and> tid \<noteq> [] \<and>
      get_or_create_thread E st = (Inr (Some tid), st1))"

definition run_created ::
  "env \<Rightarrow> config \<Rightarrow> string \<Rightarrow> state \<Rightarrow> string \<Rightarrow> string \<Rightarrow> state \<Rightarrow> bool" where
  "run_created E C user_prompt st tid rid st2 =
     (truthy (client_api_key E) \<and> truthy (assistant_id st) \<and> tid \<noteq> [] \<and>
      fst (get_or_create_thread E st) = Inr (Some tid) \<and>
      (let st1 = snd (get_or_create_thread E st);
           appended = emit (Messages_create tid ''user'' user_prompt) st1;
           created = emit (Runs_create tid (the (assistant_id st1)) (run_instructions C)) appended
       in messages_create E (trace appended) = None \<and>
          runs_create E (trace created) = Inr rid \<and>
          st2 = created))"

section \<open>A sample configuration and environment\<close>

text \<open>Every collaborator answers normally; the run is in progress until two time units
  have been slept and then fails. The scenarios below change single fields.\<close>

definition demo_config :: config where
  "demo_config =
     \<lparr>OPENAI_API_KEY = Some ''sk-test'', OPENAI_MODEL = ''gpt-4'', USER_NAME = ''Sam'',
      ASSISTANT_ID = None, ATHENA_INSTRUCTIONS = ''Be kind.'', ATHENA_TOOLS = ''[]'',
      SPEECH_RECOGNITION_TIMEOUT = 5, SPEECH_RECOGNITION_PHRASE_TIME_LIMIT = 10\<rparr>"

definition demo_env :: env where
  "demo_env =
     \<lparr>client_api_key = Some ''sk-test'',
      threads_retrieve = (\<lambda>tr. None),
      threads_create = (\<lambda>tr. Inr ''thread_1''),
      assistants_retrieve = (\<lambda>tr. Inr ''asst_1''),
      assistants_create = (\<lambda>tr. Inr ''asst_1''),
      messages_create = (\<lambda>tr. None),
      runs_create = (\<lambda>tr. Inr ''run_1''),
      runs_retrieve =
        (\<lambda>tr. if length (filter (\<lambda>ev. ev = Sleep 1) tr) < 2 then Inr ''in_progress''
              else Inr ''failed''),
      messages_list = (\<lambda>tr. Inr [\<lparr>role = ''assistant'', content = [Text_block ''Hello, Sam.'']\<rparr>]),
      speech_create = (\<lambda>tr. Inr ''mp3''),
      from_file = (\<lambda>tr. Inr ''pcm''),
      play = (\<lambda>tr. None),
      microphone = (\<lambda>tr. None),
      adjust_for_ambient_noise = (\<lambda>tr. None),
      listen = (\<lambda>tr. Inr ''wav''),
      named_temporary_file = (\<lambda>tr. Inr ''/tmp/tmp1.wav''),
      temp_write = (\<lambda>tr. None),
      file_open = (\<lambda>tr. None),
      transcriptions_create = (\<lambda>tr. Inr '' Quit ''),
      unlink = (\<lambda>tr. None),
      interpreter_chat = (\<lambda>tr. Inr ''done'')\<rparr>"

definition idle :: state where
  "idle = \<lparr>thread_id = None, assistant_id = None, trace = []\<rparr>"

definition ready :: state where
  "ready = \<lparr>thread_id = None, assistant_id = Some ''asst_1'', trace = []\<rparr>"

text \<open>Thread creation fails.\<close>

definition no_thread_env :: env where
  "no_thread_env = demo_env\<lparr>threads_create := (\<lambda>tr. Inl (Exception ''service unavailable''))\<rparr>"

text \<open>A cached thread that the service no longer knows.\<close>

definition stale_env :: env where
  "stale_env =
     demo_env\<lparr>threads_retrieve := (\<lambda>tr. Some (Exception ''No thread found'')),
              threads_create := (\<lambda>tr. Inr ''thread_2'')\<rparr>"

definition cached :: state where
  "cached = \<lparr>thread_id = Some ''thread_1'', assistant_id = Some ''asst_1'', trace = []\<rparr>"

text \<open>The run completes at the first poll; the newest message is the user's own, or the
  assistant's with an image block before its text.\<close>

definition completed_env :: env where
  "completed_env = demo_env\<lparr>runs_retrieve := (\<lambda>tr. Inr ''completed'')\<rparr>"



text \<open>Run creation fails.\<close>

definition run_error_env :: env where
  "run_error_env = demo_env\<lparr>runs_create := (\<lambda>tr. Inl (Exception ''rate limit''))\<rparr>"

text \<open>Capture times out; the transcription call fails.\<close>

definition timeout_env :: env where
  "timeout_env =
     demo_env\<lparr>listen :=
       (\<lambda>tr. Inl (WaitTimeoutError ''listening timed out while waiting for phrase to start''))\<rparr>"

definition transcription_error_env :: env where
  "transcription_error_env =
     demo_env\<lparr>transcriptions_create := (\<lambda>tr. Inl (Exception ''Connection error.''))\<rparr>"

text \<open>What one pass of the main loop adds to the trace when the capture times out.\<close>

definition timeout_events :: "config \<Rightarrow> event list" where
  "timeout_events C =
     [Microphone_enter, Print ''Listening for speech...'', Adjust_for_ambient_noise,
      Listen (SPEECH_RECOGNITION_TIMEOUT C) (SPEECH_RECOGNITION_PHRASE_TIME_LIMIT C),
      Print ''No speech detected within the timeout period.'', Microphone_exit]"

text \<open>The events of \<^verbatim>\<open>play_audio\<close> after its request to the speech service, and the line
  that \<^verbatim>\<open>open_interpreter_session\<close> prints on entry.\<close>

fun playback_step :: "event \<Rightarrow> bool" where
  "playback_step (From_file _) = True"
| "playback_step (Play _) = True"
| "playback_step (Print s) = prefix ''Error in play_audio: '' s"
| "playback_step _ = False"

definition session_start :: string where
  "session_start = ''Starting Open Interpreter session. Say 'Exit Interpreter' to end the session.''"

fun session_entry :: "event \<Rightarrow> bool" where
  "session_entry (Print s) = (s = session_start)"
| "session_entry _ = False"

text \<open>The utterances heard one after the other: the trigger phrase, an outer exit word
  and the inner exit phrase inside the session, then the inner exit phrase and an outer
  exit word in the main loop.\<close>

definition heard :: "event list \<Rightarrow> nat" where
  "heard tr = length (filter (\<lambda>ev. ev = Listen 5 10) tr)"

definition script_env :: env where
  "script_env =
     completed_env\<lparr>transcriptions_create :=
       (\<lambda>tr. Inr (if heard tr = 1 then ''Start Open Interpreter''
                    else if heard tr = 2 then ''Goodbye''
                    else if heard tr = 3 then ''Exit Interpreter''
                    else if heard tr = 4 then ''exit interpreter''
                    else ''Quit''))\<rparr>"

text \<open>The inner exit phrase is heard.\<close>

definition inner_exit_env :: env where
  "inner_exit_env =
     completed_env\<lparr>transcriptions_create := (\<lambda>tr. Inr ''Exit Interpreter'')\<rparr>"

text \<open>The client holds an empty key.\<close>

definition keyless_env :: env where
  "keyless_env = demo_env\<lparr>client_api_key := Some []\<rparr>"

text \<open>A question is heard, then \<^verbatim>\<open>Quit\<close>; run creation fails.\<close>

definition failing_query_env :: env where
  "failing_query_env =
     demo_env\<lparr>runs_create := (\<lambda>tr. Inl (Exception ''rate limit'')),
              transcriptions_create :=
                (\<lambda>tr. Inr (if heard tr = 1 then ''What is the weather'' else ''Quit''))\<rparr>"

section \<open>Properties\<close>

subsection \<open>Bookkeeping\<close>

lemma trace_emit [simp]: "trace (emit ev st) = trace st @ [ev]"
  and thread_id_emit [simp]: "thread_id (emit ev st) = thread_id st"
  and assistant_id_emit [simp]: "assistant_id (emit ev st) = assistant_id st"
  by (simp_all add: emit_def)

lemma trace_print [simp]: "trace (print s st) = trace st @ [Print s]"
  and thread_id_print [simp]: "thread_id (print s st) = thread_id st"
  and assistant_id_print [simp]: "assistant_id (print s st) = assistant_id st"
  by (simp_all add: print_def)

lemma extends_iff:
  "extends P st st' \<longleftrightarrow> (\<exists>evs. trace st' = trace st @ evs \<and> (\<forall>ev \<in> set evs. P ev))"
proof
  assume "extends P st st'"
  then have "trace st' = trace st @ drop (length (trace st)) (trace st')"
    and "\<forall>ev \<in> set (drop (length (trace st)) (trace st')). P ev"
    by (simp_all add: extends_def list_all_iff) (metis append_take_drop_id)
  then show "\<exists>evs. trace st' = trace st @ evs \<and> (\<forall>ev \<in> set evs. P ev)" by blast
next
  assume "\<exists>evs. trace st' = trace st @ evs \<and> (\<forall>ev \<in> set evs. P ev)"
  then show "extends P st st'" by (auto simp: extends_def list_all_iff)
qed

lemma extends_refl [simp]: "extends P st st"
  by (simp add: extends_def)

lemma extends_trans: "extends P st st1 \<Longrightarrow> extends P st1 st2 \<Longrightarrow> extends P st st2"
  unfolding extends_iff by fastforce

lemma extends_emit: "extends P st st1 \<Longrightarrow> P ev \<Longrightarrow> extends P st (emit ev st1)"
  unfolding extends_iff by fastforce

lemma extends_print: "extends P st st1 \<Longrightarrow> P (Print s) \<Longrightarrow> extends P st (print s st1)"
  unfolding extends_iff by fastforce

lemma extends_mono: "extends P st st' \<Longrightarrow> (\<And>ev. P ev \<Longrightarrow> Q ev) \<Longrightarrow> extends Q st st'"
  unfolding extends_iff by blast

lemma extends_thread_id: "extends P st (st1\<lparr>thread_id := h\<rparr>) = extends P st st1"
  by (simp add: extends_def)

subsection \<open>Thread acquisition only retrieves and creates threads\<close>

lemma create_thread_extends:
  "create_thread E st = (r, st1) \<Longrightarrow> extends thread_step st st1"
  unfolding create_thread_def Let_def
  by (auto split: sum.splits if_splits
           intro!: extends_print extends_emit simp: extends_thread_id)

lemma get_or_create_thread_extends:
  assumes "get_or_create_thread E st = (r, st1)"
  shows "extends thread_step st st1"
proof (cases "truthy (thread_id st)")
  case False
  with assms show ?thesis
    by (simp add: get_or_create_thread_def create_thread_extends)
next
  case True
  let ?st' = "emit (Threads_retrieve (the (thread_id st))) st"
  have base: "extends thread_step st ?st'"
    by (intro extends_emit) simp_all
  show ?thesis
  proof (cases "threads_retrieve E (trace ?st')")
    case None
    with assms True base show ?thesis
      by (auto simp: get_or_create_thread_def Let_def)
  next
    case (Some e)
    show ?thesis
    proof (cases "is_Exception e")
      case False
      with assms True Some base show ?thesis
        by (auto simp: get_or_create_thread_def Let_def)
    next
      case exc: True
      let ?st2 = "print (''Error retrieving thread: '' @ str_exc e) ?st'"
      from assms True Some exc have "create_thread E ?st2 = (r, st1)"
        by (simp add: get_or_create_thread_def Let_def)
      then have "extends thread_step ?st2 st1" by (rule create_thread_extends)
      moreover have "extends thread_step st ?st2"
        using base by (rule extends_print) simp
      ultimately show ?thesis by (rule extends_trans [rotated])
    qed
  qed
qed

lemma thread_step_not_query: "thread_step ev \<Longrightarrow> \<not> query_step ev"
  by (cases ev) simp_all

subsection \<open>The poll loop\<close>

lemma poll_run_unfold:
  "poll_run E tid rid st =
     (case exit_of (status_at E tid rid st 0) of
        Some x \<Rightarrow> Some (x, after_polls tid rid 0 st)
      | None \<Rightarrow> poll_run E tid rid (emit (Sleep 1) (emit (Runs_retrieve tid rid) st)))"
  by (subst poll_run.simps)
     (simp add: status_at_def after_polls_def emit_def Let_def split: sum.splits)

lemma status_at_shift:
  "status_at E tid rid (emit (Sleep 1) (emit (Runs_retrieve tid rid) st)) j =
   status_at E tid rid st (Suc j)"
  by (simp add: status_at_def)

lemma after_polls_shift:
  "after_polls tid rid k (emit (Sleep 1) (emit (Runs_retrieve tid rid) st)) =
   after_polls tid rid (Suc k) st"
  by (simp add: after_polls_def emit_def)

lemma poll_run_exit_at:
  "\<forall>j<k. exit_of (status_at E tid rid st j) = None \<Longrightarrow>
   exit_of (status_at E tid rid st k) = Some x \<Longrightarrow>
   poll_run E tid rid st = Some (x, after_polls tid rid k st)"
proof (induction k arbitrary: st)
  case 0
  then show ?case by (subst poll_run_unfold) simp
next
  case (Suc k)
  let ?st' = "emit (Sleep 1) (emit (Runs_retrieve tid rid) st)"
  from Suc.prems(1) have first: "exit_of (status_at E tid rid st 0) = None" by simp
  have "\<forall>j<k. exit_of (status_at E tid rid ?st' j) = None"
    using Suc.prems(1) by (simp add: status_at_shift del: One_nat_def)
  moreover have "exit_of (status_at E tid rid ?st' k) = Some x"
    using Suc.prems(2) by (simp add: status_at_shift del: One_nat_def)
  ultimately have "poll_run E tid rid ?st' = Some (x, after_polls tid rid k ?st')"
    by (rule Suc.IH)
  then show ?case
    by (subst poll_run_unfold) (simp add: first after_polls_shift del: One_nat_def)
qed

lemma poll_run_exit_only:
  "poll_run E tid rid st = Some y \<Longrightarrow>
   \<exists>k. (\<forall>j<k. exit_of (status_at E tid rid st j) = None) \<and>
       exit_of (status_at E tid rid st k) = Some (fst y) \<and>
       snd y = after_polls tid rid k st"
proof (induction rule: poll_run.raw_induct [rotated 1, consumes 1])
  case (1 poll_run' E tid rid st y)
  let ?st' = "emit (Sleep 1) (emit (Runs_retrieve tid rid) st)"
  show ?case
  proof (cases "exit_of (status_at E tid rid st 0)")
    case (Some x)
    with 1(2) have "y = (x, after_polls tid rid 0 st)"
      by (auto simp: status_at_def after_polls_def emit_def Let_def split: sum.splits if_splits)
    with Some show ?thesis by (intro exI [of _ 0]) simp
  next
    case None
    with 1(2) have loc: "poll_run' E tid rid ?st' = Some y"
      by (auto simp: status_at_def emit_def Let_def split: sum.splits if_splits)
    from 1(1) [OF loc] obtain k where
      kk: "(\<forall>j<k. exit_of (status_at E tid rid ?st' j) = None) \<and>
         exit_of (status_at E tid rid ?st' k) = Some (fst y) \<and>
         snd y = after_polls tid rid k ?st'" ..
    then have k: "\<forall>j<k. exit_of (status_at E tid rid ?st' j) = None"
         "exit_of (status_at E tid rid ?st' k) = Some (fst y)"
         "snd y = after_polls tid rid k ?st'"
      by simp_all
    have "\<forall>j<Suc k. exit_of (status_at E tid rid st j) = None"
    proof (intro allI impI)
      fix j assume "j < Suc k"
      then show "exit_of (status_at E tid rid st j) = None"
        using None k(1) by (cases j) (simp_all add: status_at_shift del: One_nat_def)
    qed
    with k(2,3) show ?thesis
      by (intro exI [of _ "Suc k"]) (simp add: status_at_shift after_polls_shift del: One_nat_def)
  qed
qed

lemma poll_run_never:
  assumes "\<forall>j. exit_of (status_at E tid rid st j) = None"
  shows "poll_run E tid rid st = None"
proof (cases "poll_run E tid rid st")
  case None
  then show ?thesis .
next
  case (Some y)
  from poll_run_exit_only [OF this] assms show ?thesis by auto
qed

lemma exit_of_None_iff:
  "exit_of r = None \<longleftrightarrow>
   (\<exists>s. r = Inr s \<and> s \<notin> set [''completed'', ''failed'', ''cancelled'', ''expired''])"
  by (cases r) auto

lemma sublist_status: "sublist s (''Run failed with status: '' @ s)"
  unfolding sublist_def by (intro exI [of _ "''Run failed with status: ''"] exI [of _ "[]"]) simp

subsection \<open>The guard and the thread check of \<^verbatim>\<open>analyze_audio\<close>\<close>

text \<open>
  C2. When thread acquisition gives no handle (\<^verbatim>\<open>None\<close>, or anything else that is false),
  \<^verbatim>\<open>analyze_audio\<close> returns the failure report for this turn, does not raise, and stops in
  the state that thread acquisition left: the events since the call are those of thread
  acquisition only, none of them a message append, a run creation, a status poll or a
  message listing.
\<close>

theorem no_thread_no_query:
  assumes "truthy (client_api_key E)" and "truthy (assistant_id st)"
    and "get_or_create_thread E st = (Inr h, st1)" and "\<not> truthy h"
  shows "analyze_audio E C user_prompt st = Some (Inr thread_failure, st1) \<and>
         extends thread_step st st1 \<and> extends (\<lambda>ev. \<not> query_step ev) st st1"
proof (intro conjI)
  show "analyze_audio E C user_prompt st = Some (Inr thread_failure, st1)"
    using assms by (simp add: analyze_audio_def analyze_body_def)
  show steps: "extends thread_step st st1"
    using assms(3) by (rule get_or_create_thread_extends)
  show "extends (\<lambda>ev. \<not> query_step ev) st st1"
    using steps by (rule extends_mono) (rule thread_step_not_query)
qed

theorem no_thread_no_query_witness:
  "truthy (client_api_key no_thread_env) \<and> truthy (assistant_id ready) \<and>
   get_or_create_thread no_thread_env ready =
     (Inr None,
      ready\<lparr>trace := [Threads_create, Print ''Error creating thread: service unavailable'']\<rparr>) \<and>
   analyze_audio no_thread_env demo_config ''hello'' ready =
     Some (Inr thread_failure,
           ready\<lparr>trace := [Threads_create, Print ''Error creating thread: service unavailable'']\<rparr>)"
proof -
  have k: "truthy (client_api_key no_thread_env)"
    by (simp add: no_thread_env_def demo_env_def)
  have a: "truthy (assistant_id ready)" by (simp add: ready_def)
  have g: "get_or_create_thread no_thread_env ready =
     (Inr None,
      ready\<lparr>trace := [Threads_create, Print ''Error creating thread: service unavailable'']\<rparr>)"
    by (simp add: get_or_create_thread_def create_thread_def no_thread_env_def demo_env_def
          ready_def emit_def print_def)
  from no_thread_no_query [OF k a g, where user_prompt = "''hello''" and C = demo_config] k a g show ?thesis by simp
qed

text \<open>
  C10. When \<^verbatim>\<open>client.api_key\<close> or the assistant handle is missing (\<^verbatim>\<open>None\<close> or empty),
  \<^verbatim>\<open>analyze_audio\<close> returns the fixed message and leaves the state, hence the trace, as it
  was: nothing is retrieved, created, appended or run. Whenever a call of \<^verbatim>\<open>analyze_audio\<close>
  adds an event to the trace, both were set.
\<close>

theorem analyze_audio_guard:
  "(\<not> truthy (client_api_key E) \<or> \<not> truthy (assistant_id st) \<longrightarrow>
      analyze_audio E C user_prompt st = Some (Inr disabled_message, st)) \<and>
   (\<forall>r st'. analyze_audio E C user_prompt st = Some (r, st') \<and> trace st' \<noteq> trace st \<longrightarrow>
      truthy (client_api_key E) \<and> truthy (assistant_id st))"
  by (auto simp: analyze_audio_def)

theorem analyze_audio_guard_witness:
  "\<not> truthy (assistant_id idle) \<and>
   analyze_audio demo_env demo_config ''hello'' idle =
     Some (Inr ''OpenAI functionalities are disabled or assistant is not initialized. Cannot analyze audio.'',
           idle) \<and>
   \<not> truthy (client_api_key keyless_env) \<and> truthy (assistant_id ready) \<and>
   analyze_audio keyless_env demo_config ''hello'' ready =
     Some (Inr ''OpenAI functionalities are disabled or assistant is not initialized. Cannot analyze audio.'',
           ready)"
  using analyze_audio_guard
          [where E = demo_env and st = idle and C = demo_config and user_prompt = "''hello''"]
        analyze_audio_guard
          [where E = keyless_env and st = ready and C = demo_config and user_prompt = "''hello''"]
  by (simp add: idle_def ready_def disabled_message_def keyless_env_def demo_env_def)

subsection \<open>Reading the reply\<close>


lemma fetch_reply_trace:
  "trace (snd (fetch_reply E C tid st)) = trace st @ [Messages_list tid ''desc'' 1]"
  by (simp add: fetch_reply_def Let_def split: sum.splits list.splits)

lemma fetch_reply_state:
  "snd (fetch_reply E C tid st) = emit (Messages_list tid ''desc'' 1) st"
  by (simp add: fetch_reply_def Let_def split: sum.splits list.splits)




subsection \<open>Failures of the remote service inside a query\<close>

lemma sublist_apology: "sublist (USER_NAME C) (apology C)"
  unfolding sublist_def apology_def
  by (intro exI [of _ "''I'm sorry, ''"]
            exI [of _ "'', I encountered an error while processing your request. How can I help you differently?''"])
     simp

lemma play_audio_handler_only_interrupt:
  "play_audio_handler e st = (Some e', st') \<Longrightarrow> \<not> is_Exception e'"
  by (auto simp: play_audio_handler_def split: if_splits)

lemma play_audio_only_interrupt:
  "play_audio E text voice st = (Some e, st') \<Longrightarrow> \<not> is_Exception e"
  unfolding play_audio_def Let_def
  by (auto split: sum.splits option.splits dest: play_audio_handler_only_interrupt)

lemma analyze_audio_only_interrupt:
  "analyze_audio E C user_prompt st = Some (Inl e, st') \<Longrightarrow> \<not> is_Exception e"
  unfolding analyze_audio_def
  by (auto split: if_splits option.splits sum.splits prod.splits)

lemma speak_and_pause_cases:
  "speak_and_pause E text st = Some (x, st') \<Longrightarrow>
   x = Inr Fall_through \<or> (\<exists>e. x = Inl e \<and> \<not> is_Exception e)"
  unfolding speak_and_pause_def
  by (auto split: prod.splits option.splits dest: play_audio_only_interrupt)

lemma dispatch_query_cases:
  assumes "lower user_prompt \<noteq> ''start open interpreter''"
    and "dispatch E C user_prompt st = Some (x, st')"
  shows "x = Inr Fall_through \<or> (\<exists>e. x = Inl e \<and> \<not> is_Exception e)"
proof (cases "analyze_audio E C user_prompt st")
  case None
  with assms show ?thesis by (simp add: dispatch_def)
next
  case (Some y)
  obtain r st1 where y: "y = (r, st1)" by (cases y)
  show ?thesis
  proof (cases r)
    case (Inl e)
    with assms Some y have "x = Inl e" by (simp add: dispatch_def)
    moreover from Some y Inl have "\<not> is_Exception e"
      by (auto dest: analyze_audio_only_interrupt)
    ultimately show ?thesis by simp
  next
    case (Inr analysis)
    with assms Some y have "speak_and_pause E analysis st1 = Some (x, st')"
      by (simp add: dispatch_def)
    then show ?thesis by (rule speak_and_pause_cases)
  qed
qed

subsection \<open>Capture and transcription\<close>

lemma transcribe_audio_failure:
  assumes "named_temporary_file E (trace st @ [Named_temporary_file]) = Inr path"
    and "temp_write E (trace st @ [Named_temporary_file, Temp_write path audio]) = None"
    and "file_open E (trace st @ [Named_temporary_file, Temp_write path audio, File_open path]) = None"
    and "transcriptions_create E
           (trace st @ [Named_temporary_file, Temp_write path audio, File_open path,
                        Transcriptions_create ''whisper-1'' path]) = Inl e"
    and "is_Exception e"
  shows "transcribe_audio E audio st =
           (Inr None,
            st\<lparr>trace := trace st @
               [Named_temporary_file, Temp_write path audio, File_open path,
                Transcriptions_create ''whisper-1'' path,
                Print (''Error in transcribe_audio: '' @ str_exc e)]\<rparr>)"
  using assms
  by (simp add: transcribe_audio_def transcribe_handler_def emit_def print_def)

text \<open>
  C8 does not hold of the code. The temporary file is made with \<^verbatim>\<open>delete=False\<close> and
  \<^verbatim>\<open>os.unlink\<close> stands inside the \<^verbatim>\<open>try\<close>, after the transcription call: when the call
  raises, control goes to the handler and the file is never unlinked. When the call
  returns, the file is unlinked. Both runs, on the sample environment.
\<close>

theorem temp_file_left_on_failure:
  "transcribe_audio transcription_error_env ''wav'' idle =
     (Inr None,
      idle\<lparr>trace :=
        [Named_temporary_file, Temp_write ''/tmp/tmp1.wav'' ''wav'', File_open ''/tmp/tmp1.wav'',
         Transcriptions_create ''whisper-1'' ''/tmp/tmp1.wav'',
         Print ''Error in transcribe_audio: Connection error.'']\<rparr>) \<and>
   Unlink ''/tmp/tmp1.wav'' \<notin> set (trace (snd (transcribe_audio transcription_error_env ''wav'' idle))) \<and>
   transcribe_audio demo_env ''wav'' idle =
     (Inr (Some ''Quit''),
      idle\<lparr>trace :=
        [Named_temporary_file, Temp_write ''/tmp/tmp1.wav'' ''wav'', File_open ''/tmp/tmp1.wav'',
         Transcriptions_create ''whisper-1'' ''/tmp/tmp1.wav'', Print_transcribe_time,
         Unlink ''/tmp/tmp1.wav'']\<rparr>)"
  by (simp add: transcribe_audio_def transcribe_handler_def transcription_error_env_def
        demo_env_def idle_def emit_def print_def strip_def lstrip_def whitespace_def)

text \<open>
  C7. When the microphone opens and the capture then times out, \<^verbatim>\<open>get_audio_input\<close> returns
  \<^verbatim>\<open>None\<close> having only opened the microphone, adjusted for noise, listened, printed and
  closed the microphone. The pass of the main loop prints one more line and continues:
  the loop goes on from a state that differs from the old one by these seven local events,
  none of them a call to a remote service, with both globals unchanged.
\<close>

theorem capture_timeout_no_remote:
  assumes "microphone E (trace st @ [Microphone_enter]) = None"
    and "adjust_for_ambient_noise E
           (trace st @ [Microphone_enter, Print ''Listening for speech...'',
                        Adjust_for_ambient_noise]) = None"
    and "listen E
           (trace st @ [Microphone_enter, Print ''Listening for speech...'',
                        Adjust_for_ambient_noise,
                        Listen (SPEECH_RECOGNITION_TIMEOUT C)
                          (SPEECH_RECOGNITION_PHRASE_TIME_LIMIT C)]) = Inl (WaitTimeoutError m)"
  shows "get_audio_input E C st = (Inr None, st\<lparr>trace := trace st @ timeout_events C\<rparr>) \<and>
         main_try E C st =
           Some (Inr Continue,
                 st\<lparr>trace := trace st @ timeout_events C @
                        [Print ''No input detected. Waiting for your command.'']\<rparr>) \<and>
         main_loop E C st =
           main_loop E C
             (st\<lparr>trace := trace st @ timeout_events C @
                    [Print ''No input detected. Waiting for your command.'']\<rparr>) \<and>
         list_all (\<lambda>ev. \<not> remote_call ev)
           (timeout_events C @ [Print ''No input detected. Waiting for your command.''])"
proof -
  have g: "get_audio_input E C st = (Inr None, st\<lparr>trace := trace st @ timeout_events C\<rparr>)"
    using assms
    by (simp add: get_audio_input_def timeout_events_def emit_def print_def)
  then have t: "main_try E C st =
           Some (Inr Continue,
                 st\<lparr>trace := trace st @ timeout_events C @
                        [Print ''No input detected. Waiting for your command.'']\<rparr>)"
    by (simp add: main_try_def print_def emit_def)
  have l: "main_loop E C st =
           main_loop E C
             (st\<lparr>trace := trace st @ timeout_events C @
                    [Print ''No input detected. Waiting for your command.'']\<rparr>)"
    by (subst main_loop.simps) (simp add: t)
  have r: "list_all (\<lambda>ev. \<not> remote_call ev)
           (timeout_events C @ [Print ''No input detected. Waiting for your command.''])"
    by (simp add: timeout_events_def)
  from g t l r show ?thesis by simp
qed

theorem capture_timeout_no_remote_witness:
  "microphone timeout_env (trace ready @ [Microphone_enter]) = None \<and>
   get_audio_input timeout_env demo_config ready =
     (Inr None,
      ready\<lparr>trace :=
        [Microphone_enter, Print ''Listening for speech...'', Adjust_for_ambient_noise,
         Listen 5 10, Print ''No speech detected within the timeout period.'',
         Microphone_exit]\<rparr>) \<and>
   main_try timeout_env demo_config ready =
     Some (Inr Continue,
           ready\<lparr>trace :=
             [Microphone_enter, Print ''Listening for speech...'', Adjust_for_ambient_noise,
              Listen 5 10, Print ''No speech detected within the timeout period.'',
              Microphone_exit, Print ''No input detected. Waiting for your command.'']\<rparr>)"
proof -
  have m: "microphone timeout_env (trace ready @ [Microphone_enter]) = None"
    by (simp add: timeout_env_def demo_env_def)
  have a: "adjust_for_ambient_noise timeout_env
           (trace ready @ [Microphone_enter, Print ''Listening for speech...'',
                        Adjust_for_ambient_noise]) = None"
    by (simp add: timeout_env_def demo_env_def)
  have l: "listen timeout_env
           (trace ready @ [Microphone_enter, Print ''Listening for speech...'',
                        Adjust_for_ambient_noise,
                        Listen (SPEECH_RECOGNITION_TIMEOUT demo_config)
                          (SPEECH_RECOGNITION_PHRASE_TIME_LIMIT demo_config)]) =
             Inl (WaitTimeoutError ''listening timed out while waiting for phrase to start'')"
    by (simp add: timeout_env_def demo_env_def)
  from capture_timeout_no_remote [OF m a l] m
  show ?thesis by (simp add: timeout_events_def demo_config_def ready_def)
qed

subsection \<open>What the speech and capture functions add to the trace\<close>

lemma play_audio_handler_trace:
  "play_audio_handler e st = (r, st') \<Longrightarrow>
   trace st' = trace st \<or> trace st' = trace st @ [Print (''Error in play_audio: '' @ str_exc e)]"
  by (auto simp: play_audio_handler_def split: if_splits)

lemma play_audio_trace:
  assumes "play_audio E text voice st = (r, st')"
  shows "\<exists>evs. trace st' = trace st @ Speech_create ''tts-1'' voice text # evs \<and>
               (\<forall>ev \<in> set evs. playback_step ev)"
  using assms unfolding play_audio_def Let_def
  by (auto split: sum.splits option.splits dest!: play_audio_handler_trace)

lemma play_audio_globals:
  "play_audio E text voice st = (r, st') \<Longrightarrow>
   thread_id st' = thread_id st \<and> assistant_id st' = assistant_id st"
  unfolding play_audio_def play_audio_handler_def Let_def
  by (auto split: sum.splits option.splits if_splits)

lemma playback_step_quiet: "playback_step ev \<Longrightarrow> \<not> session_entry ev"
  by (cases ev) (auto simp: session_start_def)

lemma play_audio_quiet:
  assumes "play_audio E text voice st = (r, st')"
  shows "extends (\<lambda>ev. \<not> session_entry ev) st st'"
proof -
  from play_audio_trace [OF assms] obtain evs where
    "trace st' = trace st @ Speech_create ''tts-1'' voice text # evs"
    "\<forall>ev \<in> set evs. playback_step ev" by blast
  then show ?thesis
    unfolding extends_iff
    by (intro exI [of _ "Speech_create ''tts-1'' voice text # evs"])
       (auto dest: playback_step_quiet)
qed

lemma transcribe_handler_quiet:
  "transcribe_handler e st = (r, st') \<Longrightarrow> extends (\<lambda>ev. \<not> session_entry ev) st0 st \<Longrightarrow>
   extends (\<lambda>ev. \<not> session_entry ev) st0 st'"
  by (auto simp: transcribe_handler_def session_start_def split: if_splits intro!: extends_print)

lemma transcribe_audio_quiet:
  assumes "transcribe_audio E audio st = (r, st')"
  shows "extends (\<lambda>ev. \<not> session_entry ev) st st'"
  using assms unfolding transcribe_audio_def Let_def
  by (auto split: sum.splits option.splits
           intro!: extends_emit
           elim!: transcribe_handler_quiet)

lemma transcribe_captured_quiet:
  assumes "transcribe_captured E audio st = (r, st')"
  shows "extends (\<lambda>ev. \<not> session_entry ev) st st'"
proof -
  obtain r1 st1 where t: "transcribe_audio E audio st = (r1, st1)"
    by (cases "transcribe_audio E audio st")
  then have q: "extends (\<lambda>ev. \<not> session_entry ev) st st1" by (rule transcribe_audio_quiet)
  from assms t have "st' = st1 \<or> (\<exists>s. st' = print s st1 \<and> s \<noteq> session_start)"
    unfolding transcribe_captured_def
    by (auto simp: session_start_def split: sum.splits if_splits exc.splits)
  with q show ?thesis by (auto intro: extends_print)
qed

lemma get_audio_input_quiet:
  assumes "get_audio_input E C st = (r, st')"
  shows "extends (\<lambda>ev. \<not> session_entry ev) st st'"
  using assms unfolding get_audio_input_def Let_def
  by (auto simp: session_start_def split: sum.splits option.splits exc.splits
           intro!: extends_emit extends_print
           dest!: transcribe_captured_quiet
           elim: extends_trans [rotated])

subsection \<open>The command-execution session\<close>

lemma speak_onyx_quiet:
  assumes "speak_onyx E text st = (r, st')"
  shows "extends (\<lambda>ev. \<not> session_entry ev) st st'"
  using assms unfolding speak_onyx_def
  by (auto split: prod.splits option.splits dest: play_audio_quiet)

lemma interpreter_turn_quiet:
  assumes "interpreter_turn E C st = (r, st')"
  shows "extends (\<lambda>ev. \<not> session_entry ev) st st'"
proof -
  obtain r1 st1 where g: "get_audio_input E C st = (r1, st1)"
    by (cases "get_audio_input E C st")
  then have q1: "extends (\<lambda>ev. \<not> session_entry ev) st st1" by (rule get_audio_input_quiet)
  have "extends (\<lambda>ev. \<not> session_entry ev) st1 st'"
    using assms g unfolding interpreter_turn_def Let_def
    by (auto simp: session_start_def split: sum.splits option.splits if_splits prod.splits
             intro!: extends_print extends_emit
             dest!: speak_onyx_quiet play_audio_quiet
             elim: extends_trans [rotated])
  with q1 show ?thesis by (rule extends_trans)
qed

lemma interpreter_loop_quiet:
  "interpreter_loop E C st = Some y \<Longrightarrow> extends (\<lambda>ev. \<not> session_entry ev) st (snd y)"
proof (induction rule: interpreter_loop.raw_induct [rotated 1, consumes 1])
  case (1 loop E C st y)
  obtain r st1 where t: "interpreter_turn E C st = (r, st1)"
    by (cases "interpreter_turn E C st")
  then have q: "extends (\<lambda>ev. \<not> session_entry ev) st st1" by (rule interpreter_turn_quiet)
  show ?case
  proof (cases r)
    case (Inl e)
    with 1(2) t q show ?thesis by auto
  next
    case (Inr h)
    show ?thesis
    proof (cases h)
      case None
      with 1(2) t Inr have "loop E C st1 = Some y" by simp
      then have "extends (\<lambda>ev. \<not> session_entry ev) st1 (snd y)" by (rule 1(1))
      with q show ?thesis by (rule extends_trans)
    next
      case (Some s)
      with 1(2) t Inr q show ?thesis by auto
    qed
  qed
qed

lemma open_interpreter_session_trace:
  assumes "open_interpreter_session E C st = Some (r, st')"
  shows "\<exists>evs. trace st' = trace st @ Print session_start # evs \<and>
               (\<forall>ev \<in> set evs. \<not> session_entry ev)"
proof -
  let ?st0 = "print session_start st"
  obtain p st1 where a: "play_audio E
      ''Entering Open Interpreter mode. Say 'Exit Interpreter' to end the session.'' ''onyx'' ?st0 =
      (p, st1)"
    by (cases "play_audio E
      ''Entering Open Interpreter mode. Say 'Exit Interpreter' to end the session.'' ''onyx'' ?st0")
  then have q1: "extends (\<lambda>ev. \<not> session_entry ev) ?st0 st1" by (rule play_audio_quiet)
  have "extends (\<lambda>ev. \<not> session_entry ev) st1 st'"
  proof (cases p)
    case (Some e)
    with assms a show ?thesis by (simp add: open_interpreter_session_def session_start_def)
  next
    case None
    with assms a have "interpreter_loop E C st1 = Some (r, st')"
      by (simp add: open_interpreter_session_def session_start_def)
    from interpreter_loop_quiet [OF this] show ?thesis by simp
  qed
  with q1 have "extends (\<lambda>ev. \<not> session_entry ev) ?st0 st'" by (rule extends_trans)
  then show ?thesis unfolding extends_iff by auto
qed

subsection \<open>Exit words and the trigger phrase\<close>

lemma sublist_farewell: "sublist (USER_NAME C) (farewell C)"
  unfolding sublist_def farewell_def
  by (intro exI [of _ "''Goodbye, ''"] exI [of _ "''! Have a great day.''"]) simp

lemma main_loop_break:
  "main_try E C st = Some (Inr Break, st') \<Longrightarrow> main_loop E C st = Some (None, st')"
  by (subst main_loop.simps) simp

text \<open>
  C3. When the utterance, lowered, is one of \<^verbatim>\<open>exit\<close>, \<^verbatim>\<open>quit\<close>, \<^verbatim>\<open>goodbye\<close> (and no interrupt
  arrives while the farewell is spoken), the pass of the loop ends by \<^verbatim>\<open>break\<close> and \<^verbatim>\<open>main\<close>'s
  loop returns normally. Since the capture, the trace has grown by the printed farewell,
  one request to speak the farewell, and the playback of that request: no second farewell,
  no dispatch, no query. The farewell contains the user's name.
\<close>

theorem exit_word_terminates:
  assumes "get_audio_input E C st = (Inr (Some u), st1)"
    and "lower u \<in> set exit_words"
    and "play_audio E (farewell C) ''nova'' (print (''Athena: '' @ farewell C) st1) = (None, st2)"
  shows "main_try E C st = Some (Inr Break, st2) \<and>
         main_loop E C st = Some (None, st2) \<and>
         sublist (USER_NAME C) (farewell C) \<and>
         (\<exists>evs. trace st2 =
                  trace st1 @ [Print (''Athena: '' @ farewell C),
                               Speech_create ''tts-1'' ''nova'' (farewell C)] @ evs \<and>
                (\<forall>ev \<in> set evs. playback_step ev))"
proof -
  have t: "main_try E C st = Some (Inr Break, st2)"
    using assms by (simp add: main_try_def)
  from play_audio_trace [OF assms(3)]
  have "\<exists>evs. trace st2 =
                  trace st1 @ [Print (''Athena: '' @ farewell C),
                               Speech_create ''tts-1'' ''nova'' (farewell C)] @ evs \<and>
                (\<forall>ev \<in> set evs. playback_step ev)"
    by auto
  with t main_loop_break [OF t] sublist_farewell show ?thesis by blast
qed

lemma demo_capture:
  "get_audio_input demo_env demo_config ready =
     (Inr (Some ''Quit''),
      ready\<lparr>trace :=
        [Microphone_enter, Print ''Listening for speech...'', Adjust_for_ambient_noise,
         Listen 5 10, Print ''Processing...'', Microphone_exit,
         Named_temporary_file, Temp_write ''/tmp/tmp1.wav'' ''wav'', File_open ''/tmp/tmp1.wav'',
         Transcriptions_create ''whisper-1'' ''/tmp/tmp1.wav'', Print_transcribe_time,
         Unlink ''/tmp/tmp1.wav'', Print ''Transcribed audio: Quit'']\<rparr>)"
  by (simp add: get_audio_input_def transcribe_captured_def transcribe_audio_def
        demo_env_def demo_config_def ready_def emit_def print_def strip_def lstrip_def whitespace_def)

theorem exit_word_terminates_witness:
  "lower ''Quit'' \<in> set exit_words \<and>
   main_loop demo_env demo_config ready =
     Some (None,
      ready\<lparr>trace :=
        [Microphone_enter, Print ''Listening for speech...'', Adjust_for_ambient_noise,
         Listen 5 10, Print ''Processing...'', Microphone_exit,
         Named_temporary_file, Temp_write ''/tmp/tmp1.wav'' ''wav'', File_open ''/tmp/tmp1.wav'',
         Transcriptions_create ''whisper-1'' ''/tmp/tmp1.wav'', Print_transcribe_time,
         Unlink ''/tmp/tmp1.wav'', Print ''Transcribed audio: Quit'',
         Print ''Athena: Goodbye, Sam! Have a great day.'',
         Speech_create ''tts-1'' ''nova'' ''Goodbye, Sam! Have a great day.'',
         From_file ''mp3'', Play ''pcm'']\<rparr>)"
proof -
  have w: "lower ''Quit'' \<in> set exit_words"
    by (simp add: lower_def lower_char_def exit_words_def)
  have p: "play_audio demo_env (farewell demo_config) ''nova''
             (print (''Athena: '' @ farewell demo_config)
                (ready\<lparr>trace :=
        [Microphone_enter, Print ''Listening for speech...'', Adjust_for_ambient_noise,
         Listen 5 10, Print ''Processing...'', Microphone_exit,
         Named_temporary_file, Temp_write ''/tmp/tmp1.wav'' ''wav'', File_open ''/tmp/tmp1.wav'',
         Transcriptions_create ''whisper-1'' ''/tmp/tmp1.wav'', Print_transcribe_time,
         Unlink ''/tmp/tmp1.wav'', Print ''Transcribed audio: Quit'']\<rparr>)) =
     (None,
      ready\<lparr>trace :=
        [Microphone_enter, Print ''Listening for speech...'', Adjust_for_ambient_noise,
         Listen 5 10, Print ''Processing...'', Microphone_exit,
         Named_temporary_file, Temp_write ''/tmp/tmp1.wav'' ''wav'', File_open ''/tmp/tmp1.wav'',
         Transcriptions_create ''whisper-1'' ''/tmp/tmp1.wav'', Print_transcribe_time,
         Unlink ''/tmp/tmp1.wav'', Print ''Transcribed audio: Quit'',
         Print ''Athena: Goodbye, Sam! Have a great day.'',
         Speech_create ''tts-1'' ''nova'' ''Goodbye, Sam! Have a great day.'',
         From_file ''mp3'', Play ''pcm'']\<rparr>)"
    by (simp add: play_audio_def farewell_def demo_env_def demo_config_def ready_def
          emit_def print_def)
  from exit_word_terminates [OF demo_capture w p] w show ?thesis by simp
qed

lemma speak_and_pause_quiet:
  assumes "speak_and_pause E text st = Some (x, st')"
  shows "extends (\<lambda>ev. \<not> session_entry ev) st st'"
proof -
  let ?st0 = "print (''Athena: '' @ text) st"
  obtain p st1 where a: "play_audio E text ''nova'' ?st0 = (p, st1)"
    by (cases "play_audio E text ''nova'' ?st0")
  have q0: "extends (\<lambda>ev. \<not> session_entry ev) st ?st0"
    by (intro extends_print) (simp_all add: session_start_def)
  from a have "extends (\<lambda>ev. \<not> session_entry ev) ?st0 st1" by (rule play_audio_quiet)
  with q0 have q1: "extends (\<lambda>ev. \<not> session_entry ev) st st1" by (rule extends_trans)
  from assms a have "st' = st1 \<or> st' = emit (Sleep 1) st1"
    by (auto simp: speak_and_pause_def split: option.splits)
  with q1 show ?thesis by (auto intro: extends_emit)
qed

lemma dispatch_trigger_trace:
  assumes "lower u = ''start open interpreter''"
    and "dispatch E C u st = Some (x, st')"
  shows "\<exists>evs. trace st' = trace st @ Print session_start # evs \<and>
               (\<forall>ev \<in> set evs. \<not> session_entry ev)"
proof (cases "open_interpreter_session E C st")
  case None
  with assms show ?thesis by (simp add: dispatch_def)
next
  case (Some y)
  obtain r st1 where y: "y = (r, st1)" by (cases y)
  from open_interpreter_session_trace [OF Some [unfolded y]] obtain evs where
    evs: "trace st1 = trace st @ Print session_start # evs" "\<forall>ev \<in> set evs. \<not> session_entry ev"
    by blast
  have "extends (\<lambda>ev. \<not> session_entry ev) st1 st'"
  proof (cases r)
    case (Inl e)
    with assms Some y show ?thesis by (simp add: dispatch_def)
  next
    case (Inr response)
    with assms Some y have "speak_and_pause E response st1 = Some (x, st')"
      by (simp add: dispatch_def)
    then show ?thesis by (rule speak_and_pause_quiet)
  qed
  then obtain evs' where "trace st' = trace st1 @ evs'" "\<forall>ev \<in> set evs'. \<not> session_entry ev"
    unfolding extends_iff by blast
  with evs show ?thesis by (intro exI [of _ "evs @ evs'"]) auto
qed

lemma exit_word_not_inner: "lower v \<in> set exit_words \<Longrightarrow> lower v \<noteq> ''exit interpreter''"
  by (auto simp: exit_words_def)

lemma speak_onyx_result:
  assumes "speak_onyx E words st = (r, st')"
  shows "r \<noteq> Inr (Some s) \<and> (\<exists>evs. trace st' = trace st @ evs)"
proof -
  from speak_onyx_quiet [OF assms] have "\<exists>evs. trace st' = trace st @ evs"
    unfolding extends_iff by blast
  moreover from assms have "r \<noteq> Inr (Some s)"
    by (auto simp: speak_onyx_def split: prod.splits option.splits)
  ultimately show ?thesis by simp
qed

lemma interpreter_turn_forwards:
  assumes "get_audio_input E C st = (Inr (Some v), s1)"
    and "lower v \<noteq> ''exit interpreter''"
  shows "(\<forall>r. fst (interpreter_turn E C st) \<noteq> Inr (Some r)) \<and>
         take (Suc (length (trace s1))) (trace (snd (interpreter_turn E C st))) =
           trace s1 @ [Interpreter_chat v]"
proof -
  let ?s2 = "emit (Interpreter_chat v) s1"
  have "\<exists>r st'. interpreter_turn E C st = (r, st') \<and> (\<forall>s. r \<noteq> Inr (Some s)) \<and>
                 (\<exists>evs. trace st' = trace ?s2 @ evs)"
  proof (cases "interpreter_chat E (trace ?s2)")
    case (Inr response)
    obtain r st' where
      s: "speak_onyx E response (print (''Open Interpreter: '' @ response) ?s2) = (r, st')"
      by (cases "speak_onyx E response (print (''Open Interpreter: '' @ response) ?s2)")
    with assms Inr have "interpreter_turn E C st = (r, st')"
      by (simp add: interpreter_turn_def)
    moreover from speak_onyx_result [OF s]
    have "(\<forall>s. r \<noteq> Inr (Some s)) \<and> (\<exists>evs. trace st' = trace ?s2 @ evs)"
      by auto
    ultimately show ?thesis by blast
  next
    case (Inl e)
    show ?thesis
    proof (cases "is_Exception e")
      case False
      with assms Inl have "interpreter_turn E C st = (Inl e, ?s2)"
        by (simp add: interpreter_turn_def)
      then show ?thesis by auto
    next
      case True
      let ?m = "''Error in Open Interpreter: '' @ str_exc e"
      obtain r st' where s: "speak_onyx E ?m (print ?m ?s2) = (r, st')"
        by (cases "speak_onyx E ?m (print ?m ?s2)")
      with assms Inl True have "interpreter_turn E C st = (r, st')"
        by (simp add: interpreter_turn_def Let_def)
      moreover from speak_onyx_result [OF s]
      have "(\<forall>s. r \<noteq> Inr (Some s)) \<and> (\<exists>evs. trace st' = trace ?s2 @ evs)"
        by auto
      ultimately show ?thesis by blast
    qed
  qed
  then show ?thesis by auto
qed

lemma main_try_query:
  assumes "get_audio_input E C st = (Inr (Some v), s1)"
    and "lower v \<notin> set exit_words" and "lower v \<noteq> ''start open interpreter''"
  shows "main_try E C st =
           (case analyze_audio E C v (print (USER_NAME C @ '': '' @ v) s1) of
              None \<Rightarrow> None
            | Some (Inl e, s) \<Rightarrow> Some (Inl e, s)
            | Some (Inr analysis, s) \<Rightarrow> speak_and_pause E analysis s) \<and>
         (\<forall>x st'. main_try E C st = Some (x, st') \<longrightarrow> x \<noteq> Inr Break)"
proof -
  have d: "main_try E C st = dispatch E C v (print (USER_NAME C @ '': '' @ v) s1)"
    using assms by (simp add: main_try_def)
  then have "main_try E C st =
           (case analyze_audio E C v (print (USER_NAME C @ '': '' @ v) s1) of
              None \<Rightarrow> None
            | Some (Inl e, s) \<Rightarrow> Some (Inl e, s)
            | Some (Inr analysis, s) \<Rightarrow> speak_and_pause E analysis s)"
    using assms(3) by (simp add: dispatch_def)
  moreover have "\<forall>x st'. main_try E C st = Some (x, st') \<longrightarrow> x \<noteq> Inr Break"
  proof (intro allI impI)
    fix x st' assume "main_try E C st = Some (x, st')"
    with d have "dispatch E C v (print (USER_NAME C @ '': '' @ v) s1) = Some (x, st')" by simp
    from dispatch_query_cases [OF assms(3) this] show "x \<noteq> Inr Break" by auto
  qed
  ultimately show ?thesis by simp
qed

subsection \<open>The cached thread handle\<close>

lemma create_thread_result:
  "create_thread E st = (Inr (Some h), st') \<Longrightarrow>
   thread_id st' = Some h \<and> threads_create E (trace st @ [Threads_create]) = Inr h"
  by (auto simp: create_thread_def Let_def split: sum.splits if_splits)

lemma create_thread_changes:
  "create_thread E st = (r, st') \<Longrightarrow> thread_id st' \<noteq> thread_id st \<Longrightarrow>
   \<exists>n. r = Inr (Some n) \<and> thread_id st' = Some n"
  by (auto simp: create_thread_def Let_def split: sum.splits if_splits)

lemma get_or_create_thread_cases:
  "get_or_create_thread E st = (r, st') \<Longrightarrow>
   (r = Inr (thread_id st) \<and> truthy (thread_id st) \<and> thread_id st' = thread_id st) \<or>
   (\<exists>e. r = Inl e \<and> \<not> is_Exception e \<and> thread_id st' = thread_id st) \<or>
   (\<exists>s. create_thread E s = (r, st') \<and> thread_id s = thread_id st)"
  unfolding get_or_create_thread_def Let_def
  by (auto split: option.splits if_splits)

lemma poll_run_thread_id:
  "poll_run E tid rid st = Some y \<Longrightarrow> thread_id (snd y) = thread_id st"
  by (auto dest!: poll_run_exit_only simp: after_polls_def)

lemma submit_query_thread_id:
  assumes "submit_query E C tid user_prompt st = Some (r, st')"
  shows "thread_id st' = thread_id st"
proof -
  have aw: "thread_id st' = thread_id s" if "await_reply E C tid rid s = Some (r, st')" for rid s
  proof (cases "poll_run E tid rid s")
    case None
    with that show ?thesis by (simp add: await_reply_def)
  next
    case (Some y)
    obtain x s1 where y: "y = (x, s1)" by (cases y)
    from poll_run_thread_id [OF Some] y have "thread_id s1 = thread_id s" by simp
    moreover from that Some y have "st' = s1 \<or> st' = snd (fetch_reply E C tid s1)"
      by (auto simp: await_reply_def split: poll_exit.splits)
    ultimately show ?thesis by (auto simp: fetch_reply_state)
  qed
  from assms show ?thesis
    unfolding submit_query_def Let_def
    by (auto split: option.splits sum.splits dest!: aw)
qed

lemma analyze_audio_thread_id:
  assumes "analyze_audio E C user_prompt st = Some (r, st')"
  shows "thread_id st' = thread_id st \<or>
         thread_id st' = thread_id (snd (get_or_create_thread E st))"
proof (cases "\<not> truthy (client_api_key E) \<or> \<not> truthy (assistant_id st)")
  case True
  with assms show ?thesis by (auto simp: analyze_audio_def)
next
  case False
  obtain g st1 where g: "get_or_create_thread E st = (g, st1)"
    by (cases "get_or_create_thread E st")
  have "\<exists>r1 s. analyze_body E C user_prompt st = Some (r1, s) \<and> thread_id s = thread_id st1 \<and>
               (st' = s \<or> (\<exists>m. st' = print m s))"
    using assms False
    by (auto simp: analyze_audio_def split: option.splits sum.splits if_splits)
       (auto simp: analyze_body_def g split: sum.splits if_splits dest: submit_query_thread_id)
  with g show ?thesis by auto
qed

lemma transcribe_audio_thread_id:
  "transcribe_audio E audio st = (r, st') \<Longrightarrow> thread_id st' = thread_id st"
  unfolding transcribe_audio_def transcribe_handler_def Let_def
  by (auto split: sum.splits option.splits if_splits)

lemma get_audio_input_thread_id:
  assumes "get_audio_input E C st = (r, st')"
  shows "thread_id st' = thread_id st"
proof -
  have tc: "thread_id s' = thread_id s" if "transcribe_captured E audio s = (r, s')" for audio s s'
    using that unfolding transcribe_captured_def
    by (auto split: prod.splits sum.splits if_splits exc.splits
             dest: transcribe_audio_thread_id)
  from assms show ?thesis
    unfolding get_audio_input_def Let_def
    by (auto split: option.splits sum.splits exc.splits dest!: tc)
qed

lemma play_audio_thread_id:
  "play_audio E words voice st = (r, st') \<Longrightarrow> thread_id st' = thread_id st"
  by (simp add: play_audio_globals)

lemma interpreter_turn_thread_id:
  assumes "interpreter_turn E C st = (r, st')"
  shows "thread_id st' = thread_id st"
proof -
  obtain r1 st1 where g: "get_audio_input E C st = (r1, st1)"
    by (cases "get_audio_input E C st")
  then have "thread_id st1 = thread_id st" by (rule get_audio_input_thread_id)
  moreover have "thread_id st' = thread_id st1"
    using assms g unfolding interpreter_turn_def speak_onyx_def Let_def
    by (auto split: sum.splits option.splits if_splits prod.splits
             dest!: play_audio_thread_id)
  ultimately show ?thesis by simp
qed

lemma interpreter_loop_thread_id:
  "interpreter_loop E C st = Some y \<Longrightarrow> thread_id (snd y) = thread_id st"
proof (induction rule: interpreter_loop.raw_induct [rotated 1, consumes 1])
  case (1 loop E C st y)
  obtain r st1 where t: "interpreter_turn E C st = (r, st1)"
    by (cases "interpreter_turn E C st")
  then have q: "thread_id st1 = thread_id st" by (rule interpreter_turn_thread_id)
  show ?case
  proof (cases r)
    case (Inl e)
    with 1(2) t q show ?thesis by auto
  next
    case (Inr h)
    show ?thesis
    proof (cases h)
      case None
      with 1(2) t Inr have "loop E C st1 = Some y" by simp
      then have "thread_id (snd y) = thread_id st1" by (rule 1(1))
      with q show ?thesis by simp
    next
      case (Some s)
      with 1(2) t Inr q show ?thesis by auto
    qed
  qed
qed

lemma open_interpreter_session_thread_id:
  assumes "open_interpreter_session E C st = Some y"
  shows "thread_id (snd y) = thread_id st"
proof -
  let ?st0 = "print ''Starting Open Interpreter session. Say 'Exit Interpreter' to end the session.'' st"
  obtain p st1 where a: "play_audio E
      ''Entering Open Interpreter mode. Say 'Exit Interpreter' to end the session.'' ''onyx'' ?st0 =
      (p, st1)"
    by (cases "play_audio E
      ''Entering Open Interpreter mode. Say 'Exit Interpreter' to end the session.'' ''onyx'' ?st0")
  then have q: "thread_id st1 = thread_id st" by (simp add: play_audio_globals)
  show ?thesis
  proof (cases p)
    case (Some e)
    with assms a q show ?thesis by (auto simp: open_interpreter_session_def)
  next
    case None
    with assms a have "interpreter_loop E C st1 = Some y"
      by (simp add: open_interpreter_session_def)
    from interpreter_loop_thread_id [OF this] q show ?thesis by simp
  qed
qed

text \<open>
  C9. The cached handle is tried first and reused when its retrieval succeeds, with no
  creation and no change of the cache. When nothing is cached, or when the retrieval of
  the cached handle raises, a thread is created, and a successful creation stores the new
  identifier in the one global. So every call that returns a handle leaves that handle in
  the global, and the global changes only through a successful creation inside the call.
  Nothing else refreshes it: speaking, capturing and the command-execution session leave
  the global alone, and after \<^verbatim>\<open>analyze_audio\<close> it is what it was or what thread acquisition
  made it.
\<close>

theorem thread_handle_lazy:
  "(truthy (thread_id st) \<and>
    threads_retrieve E (trace st @ [Threads_retrieve (the (thread_id st))]) = None \<longrightarrow>
      get_or_create_thread E st =
        (Inr (thread_id st), emit (Threads_retrieve (the (thread_id st))) st)) \<and>
   (truthy (thread_id st) \<and>
    threads_retrieve E (trace st @ [Threads_retrieve (the (thread_id st))]) = Some e \<and>
    is_Exception e \<longrightarrow>
      get_or_create_thread E st =
        create_thread E (print (''Error retrieving thread: '' @ str_exc e)
                           (emit (Threads_retrieve (the (thread_id st))) st))) \<and>
   (\<not> truthy (thread_id st) \<longrightarrow> get_or_create_thread E st = create_thread E st) \<and>
   (threads_create E (trace s @ [Threads_create]) = Inr n \<longrightarrow>
      fst (create_thread E s) = Inr (Some n) \<and> thread_id (snd (create_thread E s)) = Some n) \<and>
   (\<forall>h st'. get_or_create_thread E st = (Inr (Some h), st') \<longrightarrow> thread_id st' = Some h) \<and>
   (\<forall>r st'. get_or_create_thread E st = (r, st') \<and> thread_id st' \<noteq> thread_id st \<longrightarrow>
      (\<exists>n. r = Inr (Some n) \<and> thread_id st' = Some n)) \<and>
   (\<forall>r st'. analyze_audio E C user_prompt st = Some (r, st') \<longrightarrow>
      thread_id st' = thread_id st \<or>
      thread_id st' = thread_id (snd (get_or_create_thread E st))) \<and>
   (\<forall>r st'. play_audio E words voice st = (r, st') \<longrightarrow> thread_id st' = thread_id st) \<and>
   (\<forall>r st'. get_audio_input E C st = (r, st') \<longrightarrow> thread_id st' = thread_id st) \<and>
   (\<forall>y. open_interpreter_session E C st = Some y \<longrightarrow> thread_id (snd y) = thread_id st)"
proof (intro conjI allI impI)
  assume "truthy (thread_id st) \<and>
    threads_retrieve E (trace st @ [Threads_retrieve (the (thread_id st))]) = None"
  then show "get_or_create_thread E st =
        (Inr (thread_id st), emit (Threads_retrieve (the (thread_id st))) st)"
    by (simp add: get_or_create_thread_def)
next
  assume "truthy (thread_id st) \<and>
    threads_retrieve E (trace st @ [Threads_retrieve (the (thread_id st))]) = Some e \<and>
    is_Exception e"
  then show "get_or_create_thread E st =
        create_thread E (print (''Error retrieving thread: '' @ str_exc e)
                           (emit (Threads_retrieve (the (thread_id st))) st))"
    by (simp add: get_or_create_thread_def)
next
  assume "\<not> truthy (thread_id st)"
  then show "get_or_create_thread E st = create_thread E st"
    by (simp add: get_or_create_thread_def)
next
  assume "threads_create E (trace s @ [Threads_create]) = Inr n"
  then show "fst (create_thread E s) = Inr (Some n)"
    and "thread_id (snd (create_thread E s)) = Some n"
    by (simp_all add: create_thread_def)
next
  fix h st' assume g: "get_or_create_thread E st = (Inr (Some h), st')"
  from get_or_create_thread_cases [OF g] show "thread_id st' = Some h"
    by (auto dest: create_thread_result)
next
  fix r st'
  assume g: "get_or_create_thread E st = (r, st') \<and> thread_id st' \<noteq> thread_id st"
  then have "get_or_create_thread E st = (r, st')" and ne: "thread_id st' \<noteq> thread_id st"
    by simp_all
  from get_or_create_thread_cases [OF this(1)] ne
  show "\<exists>n. r = Inr (Some n) \<and> thread_id st' = Some n"
    by (auto dest: create_thread_changes)
next
  fix r st' assume "analyze_audio E C user_prompt st = Some (r, st')"
  then show "thread_id st' = thread_id st \<or>
      thread_id st' = thread_id (snd (get_or_create_thread E st))"
    by (rule analyze_audio_thread_id)
next
  fix r st' assume "play_audio E words voice st = (r, st')"
  then show "thread_id st' = thread_id st" by (rule play_audio_thread_id)
next
  fix r st' assume "get_audio_input E C st = (r, st')"
  then show "thread_id st' = thread_id st" by (rule get_audio_input_thread_id)
next
  fix y assume "open_interpreter_session E C st = Some y"
  then show "thread_id (snd y) = thread_id st" by (rule open_interpreter_session_thread_id)
qed

theorem thread_handle_lazy_witness:
  "truthy (thread_id cached) \<and>
   threads_retrieve stale_env (trace cached @ [Threads_retrieve (the (thread_id cached))]) =
     Some (Exception ''No thread found'') \<and>
   is_Exception (Exception ''No thread found'') \<and>
   threads_create stale_env
     (trace (print (''Error retrieving thread: '' @ str_exc (Exception ''No thread found''))
               (emit (Threads_retrieve (the (thread_id cached))) cached)) @ [Threads_create]) =
     Inr ''thread_2'' \<and>
   fst (get_or_create_thread stale_env cached) = Inr (Some ''thread_2'') \<and>
   thread_id (snd (get_or_create_thread stale_env cached)) = Some ''thread_2''"
proof -
  have c: "truthy (thread_id cached)" by (simp add: cached_def)
  have r: "threads_retrieve stale_env (trace cached @ [Threads_retrieve (the (thread_id cached))]) =
     Some (Exception ''No thread found'')"
    by (simp add: stale_env_def demo_env_def)
  have n: "threads_create stale_env
     (trace (print (''Error retrieving thread: '' @ str_exc (Exception ''No thread found''))
               (emit (Threads_retrieve (the (thread_id cached))) cached)) @ [Threads_create]) =
     Inr ''thread_2''"
    by (simp add: stale_env_def demo_env_def)
  from thread_handle_lazy
         [where st = cached and E = stale_env and e = "Exception ''No thread found''"
            and s = "print (''Error retrieving thread: '' @ str_exc (Exception ''No thread found''))
                (emit (Threads_retrieve (the (thread_id cached))) cached)"
            and n = "''thread_2''"]
       c r n
  show ?thesis by simp
qed

subsection \<open>A whole run\<close>

text \<open>
  \<^verbatim>\<open>main\<close> on the sample environment: the assistant is created, the greeting is spoken,
  the first utterance is \<^verbatim>\<open>Quit\<close>, and the run ends with the farewell. Shown are the
  result, the two globals at the end, and the calls that leave the process.
\<close>

lemma main_sample_run:
  "map_option
     (\<lambda>y. (fst y, thread_id (snd y), assistant_id (snd y), filter remote_call (trace (snd y))))
     (main demo_env demo_config idle) =
   Some (None, None, Some ''asst_1'',
     [Assistants_create ''Athena'' ''Be kind.'' ''gpt-4'' ''[]'',
      Speech_create ''tts-1'' ''nova'' ''Hey Sam! What's up!'',
      Transcriptions_create ''whisper-1'' ''/tmp/tmp1.wav'',
      Speech_create ''tts-1'' ''nova'' ''Goodbye, Sam! Have a great day.''])"
  by (simp add: main_def initialize_assistant_def create_assistant_def main_loop.simps
        main_try_def exit_words_def farewell_def Let_def
        get_audio_input_def transcribe_captured_def transcribe_audio_def play_audio_def
        demo_env_def lower_def lower_char_def strip_def lstrip_def whitespace_def emit_def
        print_def idle_def demo_config_def)

subsection \<open>The handlers of the main loop\<close>

text \<open>An exception of class \<^verbatim>\<open>Exception\<close> that reaches the loop is reported and spoken, and
  the loop goes on listening; an interrupt ends the loop after the second farewell.\<close>

lemma main_loop_survives_exception:
  assumes "main_try E C st = Some (Inl e, st1)" and "is_Exception e"
    and "error_handler E e st1 = (None, st2)"
  shows "main_loop E C st = main_loop E C (print ''Listening for speech...'' st2)"
  using assms by (subst main_loop.simps) simp

lemma main_loop_interrupt:
  assumes "main_try E C st = Some (Inl e, st1)" and "\<not> is_Exception e"
  shows "main_loop E C st = Some (interrupt_handler E C st1)"
  using assms by (subst main_loop.simps) simp

subsection \<open>The query path of \<^verbatim>\<open>analyze_audio\<close>\<close>

lemma analyze_audio_handled:
  assumes "truthy (client_api_key E)" and "truthy (assistant_id st)"
  shows "analyze_audio E C user_prompt st = map_option (handled C) (analyze_body E C user_prompt st)"
  using assms
  by (auto simp: analyze_audio_def split: option.splits sum.splits)

lemma analyze_body_acquired:
  assumes "thread_acquired E st tid st1"
  shows "analyze_body E C user_prompt st = submit_query E C tid user_prompt st1"
  using assms by (simp add: thread_acquired_def analyze_body_def)

lemma analyze_body_created:
  assumes "run_created E C user_prompt st tid rid st2"
  shows "analyze_body E C user_prompt st = await_reply E C tid rid st2"
proof -
  obtain g st1 where g: "get_or_create_thread E st = (g, st1)"
    by (cases "get_or_create_thread E st")
  with assms show ?thesis
    by (simp add: run_created_def analyze_body_def submit_query_def Let_def)
qed

lemma analyze_audio_created:
  assumes "run_created E C user_prompt st tid rid st2"
  shows "analyze_audio E C user_prompt st = map_option (handled C) (await_reply E C tid rid st2)"
proof -
  from assms have "truthy (client_api_key E)" and "truthy (assistant_id st)"
    by (simp_all add: run_created_def)
  then show ?thesis
    by (simp add: analyze_audio_handled analyze_body_created [OF assms])
qed

lemma await_reply_exit_at:
  assumes "\<forall>j<k. exit_of (status_at E tid rid st j) = None"
    and "exit_of (status_at E tid rid st k) = Some x"
  shows "await_reply E C tid rid st =
           Some (case x of
                   Poll_break \<Rightarrow> fetch_reply E C tid (after_polls tid rid k st)
                 | Poll_return msg \<Rightarrow> (Inr msg, after_polls tid rid k st)
                 | Poll_raise e \<Rightarrow> (Inl e, after_polls tid rid k st))"
  using poll_run_exit_at [OF assms]
  by (simp add: await_reply_def split: poll_exit.splits)

lemma handled_trace: "prefix (trace (snd r)) (trace (snd (handled C r)))"
  by (cases r, cases "fst r") (auto simp: prefix_def)

lemma analyze_audio_returns_after_terminal:
  assumes c: "run_created E C user_prompt st tid rid st2"
    and r: "analyze_audio E C user_prompt st = Some (r, st')"
  shows "\<exists>k. (\<forall>j<k. exit_of (status_at E tid rid st2 j) = None) \<and>
             exit_of (status_at E tid rid st2 k) \<noteq> None \<and>
             prefix (trace (after_polls tid rid k st2)) (trace st')"
proof -
  from r analyze_audio_created [OF c] obtain y where
    y: "await_reply E C tid rid st2 = Some y" "handled C y = (r, st')"
    by auto
  then obtain z where z: "poll_run E tid rid st2 = Some z"
    by (cases "poll_run E tid rid st2") (auto simp: await_reply_def)
  from poll_run_exit_only [OF z] obtain k where
    k: "\<forall>j<k. exit_of (status_at E tid rid st2 j) = None"
       "exit_of (status_at E tid rid st2 k) = Some (fst z)"
       "snd z = after_polls tid rid k st2"
    by blast
  from y(1) z k(3) have "snd y = after_polls tid rid k st2 \<or>
                          snd y = snd (fetch_reply E C tid (after_polls tid rid k st2))"
    by (cases z) (auto simp: await_reply_def split: poll_exit.splits)
  then have "prefix (trace (after_polls tid rid k st2)) (trace (snd y))"
    by (auto simp: fetch_reply_state)
  moreover from handled_trace [of y C] y(2) have "prefix (trace (snd y)) (trace st')" by simp
  ultimately have "prefix (trace (after_polls tid rid k st2)) (trace st')"
    by (rule prefix_order.trans)
  with k(1,2) show ?thesis by auto
qed

text \<open>
  C1. Once the run is created, \<^verbatim>\<open>analyze_audio\<close> polls its status, sleeps one time unit
  after every answer that is not terminal, and polls again; the loop is left only at the
  first answer that is terminal (or that raises). If the first \<open>k\<close> answers are not
  terminal and the next one is \<^verbatim>\<open>completed\<close>, \<^verbatim>\<open>analyze_audio\<close> goes on to fetch the reply in
  the state reached after \<open>k\<close> pairs of a status call and a sleep of 1 and one more status
  call. If the next one is \<^verbatim>\<open>failed\<close>, \<^verbatim>\<open>cancelled\<close> or \<^verbatim>\<open>expired\<close>, \<^verbatim>\<open>analyze_audio\<close> returns,
  in that state, the failure string, which contains the status. If no answer is ever
  terminal, \<^verbatim>\<open>analyze_audio\<close> does not return. Whenever \<^verbatim>\<open>analyze_audio\<close> returns, some poll was
  answered terminally (or raised) after polls that were not, and the trace begins with
  the polls and sleeps up to it.
\<close>

theorem analyze_audio_poll_loop:
  assumes "run_created E C user_prompt st tid rid st2"
  shows
   "(\<forall>y. poll_run E tid rid st2 = Some y \<longrightarrow>
      (\<exists>k. (\<forall>j<k. exit_of (status_at E tid rid st2 j) = None) \<and>
           exit_of (status_at E tid rid st2 k) = Some (fst y) \<and>
           snd y = after_polls tid rid k st2)) \<and>
    ((\<forall>j<k. exit_of (status_at E tid rid st2 j) = None) \<and>
     status_at E tid rid st2 k = Inr ''completed'' \<longrightarrow>
       analyze_audio E C user_prompt st =
         Some (handled C (fetch_reply E C tid (after_polls tid rid k st2)))) \<and>
    ((\<forall>j<k. exit_of (status_at E tid rid st2 j) = None) \<and>
     status_at E tid rid st2 k = Inr s \<and> s \<in> set [''failed'', ''cancelled'', ''expired''] \<longrightarrow>
       analyze_audio E C user_prompt st =
         Some (Inr (''Run failed with status: '' @ s), after_polls tid rid k st2) \<and>
       sublist s (''Run failed with status: '' @ s)) \<and>
    ((\<forall>j. exit_of (status_at E tid rid st2 j) = None) \<longrightarrow>
       analyze_audio E C user_prompt st = None) \<and>
    (\<forall>r st'. analyze_audio E C user_prompt st = Some (r, st') \<longrightarrow>
       (\<exists>k. (\<forall>j<k. exit_of (status_at E tid rid st2 j) = None) \<and>
            exit_of (status_at E tid rid st2 k) \<noteq> None \<and>
            prefix (trace (after_polls tid rid k st2)) (trace st')))"
proof (intro conjI allI impI)
  fix y assume "poll_run E tid rid st2 = Some y"
  then show "\<exists>k. (\<forall>j<k. exit_of (status_at E tid rid st2 j) = None) \<and>
                 exit_of (status_at E tid rid st2 k) = Some (fst y) \<and>
                 snd y = after_polls tid rid k st2"
    by (rule poll_run_exit_only)
next
  assume "(\<forall>j<k. exit_of (status_at E tid rid st2 j) = None) \<and>
          status_at E tid rid st2 k = Inr ''completed''"
  then have "await_reply E C tid rid st2 =
               Some (fetch_reply E C tid (after_polls tid rid k st2))"
    using await_reply_exit_at [of k E tid rid st2 Poll_break C] by simp
  then show "analyze_audio E C user_prompt st =
         Some (handled C (fetch_reply E C tid (after_polls tid rid k st2)))"
    by (simp add: analyze_audio_created [OF assms])
next
  assume a: "(\<forall>j<k. exit_of (status_at E tid rid st2 j) = None) \<and>
     status_at E tid rid st2 k = Inr s \<and> s \<in> set [''failed'', ''cancelled'', ''expired'']"
  then have "exit_of (status_at E tid rid st2 k) =
               Some (Poll_return (''Run failed with status: '' @ s))"
    by auto
  with a have "await_reply E C tid rid st2 =
                 Some (Inr (''Run failed with status: '' @ s), after_polls tid rid k st2)"
    using await_reply_exit_at
            [of k E tid rid st2 "Poll_return (''Run failed with status: '' @ s)" C]
    by simp
  then show "analyze_audio E C user_prompt st =
         Some (Inr (''Run failed with status: '' @ s), after_polls tid rid k st2)"
    by (simp add: analyze_audio_created [OF assms])
next
  show "sublist s (''Run failed with status: '' @ s)" by (rule sublist_status)
next
  assume "\<forall>j. exit_of (status_at E tid rid st2 j) = None"
  then have "poll_run E tid rid st2 = None" by (rule poll_run_never)
  then show "analyze_audio E C user_prompt st = None"
    by (simp add: analyze_audio_created [OF assms] await_reply_def)
next
  fix r st' assume "analyze_audio E C user_prompt st = Some (r, st')"
  with assms show "\<exists>k. (\<forall>j<k. exit_of (status_at E tid rid st2 j) = None) \<and>
            exit_of (status_at E tid rid st2 k) \<noteq> None \<and>
            prefix (trace (after_polls tid rid k st2)) (trace st')"
    by (rule analyze_audio_returns_after_terminal)
qed

lemma demo_run_created:
  "run_created demo_env demo_config ''hello'' ready ''thread_1'' ''run_1''
     \<lparr>thread_id = Some ''thread_1'', assistant_id = Some ''asst_1'',
      trace = [Threads_create, Print ''New thread created with ID: thread_1'',
               Messages_create ''thread_1'' ''user'' ''hello'',
               Runs_create ''thread_1'' ''asst_1'' (run_instructions demo_config)]\<rparr>"
  by (simp add: run_created_def get_or_create_thread_def create_thread_def Let_def
        demo_env_def ready_def emit_def print_def)

lemma demo_status_at:
  "status_at demo_env ''thread_1'' ''run_1''
     \<lparr>thread_id = Some ''thread_1'', assistant_id = Some ''asst_1'',
      trace = [Threads_create, Print ''New thread created with ID: thread_1'',
               Messages_create ''thread_1'' ''user'' ''hello'',
               Runs_create ''thread_1'' ''asst_1'' (run_instructions demo_config)]\<rparr> 0 =
   Inr ''in_progress''"
  "status_at demo_env ''thread_1'' ''run_1''
     \<lparr>thread_id = Some ''thread_1'', assistant_id = Some ''asst_1'',
      trace = [Threads_create, Print ''New thread created with ID: thread_1'',
               Messages_create ''thread_1'' ''user'' ''hello'',
               Runs_create ''thread_1'' ''asst_1'' (run_instructions demo_config)]\<rparr> (Suc 0) =
   Inr ''in_progress''"
  "status_at demo_env ''thread_1'' ''run_1''
     \<lparr>thread_id = Some ''thread_1'', assistant_id = Some ''asst_1'',
      trace = [Threads_create, Print ''New thread created with ID: thread_1'',
               Messages_create ''thread_1'' ''user'' ''hello'',
               Runs_create ''thread_1'' ''asst_1'' (run_instructions demo_config)]\<rparr> 2 =
   Inr ''failed''"
  by (simp_all add: status_at_def demo_env_def numeral_2_eq_2)

theorem analyze_audio_poll_loop_witness:
  "run_created demo_env demo_config ''hello'' ready ''thread_1'' ''run_1''
     \<lparr>thread_id = Some ''thread_1'', assistant_id = Some ''asst_1'',
      trace = [Threads_create, Print ''New thread created with ID: thread_1'',
               Messages_create ''thread_1'' ''user'' ''hello'',
               Runs_create ''thread_1'' ''asst_1'' (run_instructions demo_config)]\<rparr> \<and>
   analyze_audio demo_env demo_config ''hello'' ready =
     Some (Inr ''Run failed with status: failed'',
           \<lparr>thread_id = Some ''thread_1'', assistant_id = Some ''asst_1'',
            trace = [Threads_create, Print ''New thread created with ID: thread_1'',
                     Messages_create ''thread_1'' ''user'' ''hello'',
                     Runs_create ''thread_1'' ''asst_1'' (run_instructions demo_config),
                     Runs_retrieve ''thread_1'' ''run_1'', Sleep 1,
                     Runs_retrieve ''thread_1'' ''run_1'', Sleep 1,
                     Runs_retrieve ''thread_1'' ''run_1'']\<rparr>)"
proof -
  let ?st2 = "\<lparr>thread_id = Some ''thread_1'', assistant_id = Some ''asst_1'',
      trace = [Threads_create, Print ''New thread created with ID: thread_1'',
               Messages_create ''thread_1'' ''user'' ''hello'',
               Runs_create ''thread_1'' ''asst_1'' (run_instructions demo_config)]\<rparr>"
  have w: "\<forall>j<2. exit_of (status_at demo_env ''thread_1'' ''run_1'' ?st2 j) = None"
    by (simp add: numeral_2_eq_2 less_Suc_eq demo_status_at)
  have a: "after_polls ''thread_1'' ''run_1'' 2 ?st2 =
     \<lparr>thread_id = Some ''thread_1'', assistant_id = Some ''asst_1'',
            trace = [Threads_create, Print ''New thread created with ID: thread_1'',
                     Messages_create ''thread_1'' ''user'' ''hello'',
                     Runs_create ''thread_1'' ''asst_1'' (run_instructions demo_config),
                     Runs_retrieve ''thread_1'' ''run_1'', Sleep 1,
                     Runs_retrieve ''thread_1'' ''run_1'', Sleep 1,
                     Runs_retrieve ''thread_1'' ''run_1'']\<rparr>"
    by (simp add: after_polls_def numeral_2_eq_2)
  from analyze_audio_poll_loop [OF demo_run_created, where k = 2 and s = "''failed''"]
       w demo_status_at(3) a demo_run_created
  show ?thesis by simp
qed

subsection \<open>The trigger phrase and the two exit phrases\<close>

lemma user_line_not_session_start: "USER_NAME C @ '': '' @ v \<noteq> session_start"
proof
  assume "USER_NAME C @ '': '' @ v = session_start"
  then have "set (USER_NAME C @ '': '' @ v) = set session_start" by simp
  moreover have "CHR '':'' \<in> set (USER_NAME C @ '': '' @ v)" by simp
  moreover have "CHR '':'' \<notin> set session_start" by (simp add: session_start_def)
  ultimately show False by simp
qed

lemma main_try_trigger:
  assumes g: "get_audio_input E C st = (Inr (Some v), s1)"
    and t: "lower v = ''start open interpreter''"
  shows "main_try E C st =
           (case open_interpreter_session E C (print (USER_NAME C @ '': '' @ v) s1) of
              None \<Rightarrow> None
            | Some (Inl e, s) \<Rightarrow> Some (Inl e, s)
            | Some (Inr response, s) \<Rightarrow> speak_and_pause E response s)"
    and "main_try E C st = Some (x, st') \<Longrightarrow>
           length (filter session_entry (drop (length (trace st)) (trace st'))) = 1"
proof -
  from t have n: "lower v \<notin> set exit_words" by (simp add: exit_words_def)
  from g n have d: "main_try E C st = dispatch E C v (print (USER_NAME C @ '': '' @ v) s1)"
    by (simp add: main_try_def)
  with t show "main_try E C st =
           (case open_interpreter_session E C (print (USER_NAME C @ '': '' @ v) s1) of
              None \<Rightarrow> None
            | Some (Inl e, s) \<Rightarrow> Some (Inl e, s)
            | Some (Inr response, s) \<Rightarrow> speak_and_pause E response s)"
    by (simp add: dispatch_def)
  assume "main_try E C st = Some (x, st')"
  with d have "dispatch E C v (print (USER_NAME C @ '': '' @ v) s1) = Some (x, st')" by simp
  from dispatch_trigger_trace [OF t this] obtain evs where
    evs: "trace st' = trace (print (USER_NAME C @ '': '' @ v) s1) @ Print session_start # evs"
         "\<forall>ev \<in> set evs. \<not> session_entry ev"
    by blast
  from get_audio_input_quiet [OF g] obtain evs0 where
    evs0: "trace s1 = trace st @ evs0" "\<forall>ev \<in> set evs0. \<not> session_entry ev"
    by (auto simp: extends_iff)
  from evs(1) evs0(1) have
    "drop (length (trace st)) (trace st') =
       evs0 @ Print (USER_NAME C @ '': '' @ v) # Print session_start # evs"
    by (simp add: print_def emit_def)
  with evs(2) evs0(2) show
    "length (filter session_entry (drop (length (trace st)) (trace st'))) = 1"
    using user_line_not_session_start [of C v] by simp
qed

text \<open>
  C4. A turn of the main loop (\<open>main_try\<close>) that hears an utterance which, lowered, is the
  trigger phrase is one call of \<^verbatim>\<open>open_interpreter_session\<close> followed by speaking what the
  session returned, and whenever the turn returns, the line that the session prints on
  entry occurs exactly once among the events the turn added. The same holds of the
  dispatch of such an utterance, where that line is the first event added; and the
  trigger phrase is not an exit word. The inner exit phrase is not one of the outer exit
  words and no outer exit word is the inner exit phrase. So an outer exit word heard
  inside the session does not end the session (the pass forwards it to the agent and
  never returns from the session), and the inner exit phrase heard by the main loop does
  not end the main loop (the pass is an ordinary query and never breaks).
\<close>

theorem trigger_enters_session_once:
  "(\<forall>v s1. get_audio_input E C st = (Inr (Some v), s1) \<and>
            lower v = ''start open interpreter'' \<longrightarrow>
      main_try E C st =
        (case open_interpreter_session E C (print (USER_NAME C @ '': '' @ v) s1) of
           None \<Rightarrow> None
         | Some (Inl e, s) \<Rightarrow> Some (Inl e, s)
         | Some (Inr response, s) \<Rightarrow> speak_and_pause E response s) \<and>
      (\<forall>x st'. main_try E C st = Some (x, st') \<longrightarrow>
         length (filter session_entry (drop (length (trace st)) (trace st'))) = 1)) \<and>
   (lower u = ''start open interpreter'' \<longrightarrow>
      lower u \<notin> set exit_words \<and>
      dispatch E C u st =
        (case open_interpreter_session E C st of
           None \<Rightarrow> None
         | Some (Inl e, s) \<Rightarrow> Some (Inl e, s)
         | Some (Inr response, s) \<Rightarrow> speak_and_pause E response s) \<and>
      (\<forall>x st'. dispatch E C u st = Some (x, st') \<longrightarrow>
         (\<exists>evs. trace st' = trace st @ Print session_start # evs \<and>
                (\<forall>ev \<in> set evs. \<not> session_entry ev)))) \<and>
   ''exit interpreter'' \<notin> set exit_words \<and>
   (\<forall>w \<in> set exit_words. w \<noteq> ''exit interpreter'') \<and>
   (\<forall>v s1. get_audio_input E C st = (Inr (Some v), s1) \<and> lower v \<in> set exit_words \<longrightarrow>
      (\<forall>r. fst (interpreter_turn E C st) \<noteq> Inr (Some r)) \<and>
      take (Suc (length (trace s1))) (trace (snd (interpreter_turn E C st))) =
        trace s1 @ [Interpreter_chat v]) \<and>
   (\<forall>v s1. get_audio_input E C st = (Inr (Some v), s1) \<and> lower v = ''exit interpreter'' \<longrightarrow>
      main_try E C st =
        (case analyze_audio E C v (print (USER_NAME C @ '': '' @ v) s1) of
           None \<Rightarrow> None
         | Some (Inl e, s) \<Rightarrow> Some (Inl e, s)
         | Some (Inr analysis, s) \<Rightarrow> speak_and_pause E analysis s) \<and>
      (\<forall>x st'. main_try E C st = Some (x, st') \<longrightarrow> x \<noteq> Inr Break))"
proof (intro conjI)
  show "\<forall>v s1. get_audio_input E C st = (Inr (Some v), s1) \<and>
            lower v = ''start open interpreter'' \<longrightarrow>
      main_try E C st =
        (case open_interpreter_session E C (print (USER_NAME C @ '': '' @ v) s1) of
           None \<Rightarrow> None
         | Some (Inl e, s) \<Rightarrow> Some (Inl e, s)
         | Some (Inr response, s) \<Rightarrow> speak_and_pause E response s) \<and>
      (\<forall>x st'. main_try E C st = Some (x, st') \<longrightarrow>
         length (filter session_entry (drop (length (trace st)) (trace st'))) = 1)"
    using main_try_trigger by blast
next
  show "lower u = ''start open interpreter'' \<longrightarrow>
      lower u \<notin> set exit_words \<and>
      dispatch E C u st =
        (case open_interpreter_session E C st of
           None \<Rightarrow> None
         | Some (Inl e, s) \<Rightarrow> Some (Inl e, s)
         | Some (Inr response, s) \<Rightarrow> speak_and_pause E response s) \<and>
      (\<forall>x st'. dispatch E C u st = Some (x, st') \<longrightarrow>
         (\<exists>evs. trace st' = trace st @ Print session_start # evs \<and>
                (\<forall>ev \<in> set evs. \<not> session_entry ev)))"
  proof (intro impI conjI allI)
    assume t: "lower u = ''start open interpreter''"
    then show "lower u \<notin> set exit_words" by (simp add: exit_words_def)
    from t show "dispatch E C u st =
        (case open_interpreter_session E C st of
           None \<Rightarrow> None
         | Some (Inl e, s) \<Rightarrow> Some (Inl e, s)
         | Some (Inr response, s) \<Rightarrow> speak_and_pause E response s)"
      by (simp add: dispatch_def)
    fix x st' assume "dispatch E C u st = Some (x, st')"
    with t show "\<exists>evs. trace st' = trace st @ Print session_start # evs \<and>
                (\<forall>ev \<in> set evs. \<not> session_entry ev)"
      by (rule dispatch_trigger_trace)
  qed
next
  show "''exit interpreter'' \<notin> set exit_words" by (simp add: exit_words_def)
next
  show "\<forall>w \<in> set exit_words. w \<noteq> ''exit interpreter''" by (simp add: exit_words_def)
next
  show "\<forall>v s1. get_audio_input E C st = (Inr (Some v), s1) \<and> lower v \<in> set exit_words \<longrightarrow>
      (\<forall>r. fst (interpreter_turn E C st) \<noteq> Inr (Some r)) \<and>
      take (Suc (length (trace s1))) (trace (snd (interpreter_turn E C st))) =
        trace s1 @ [Interpreter_chat v]"
    using interpreter_turn_forwards exit_word_not_inner by blast
next
  show "\<forall>v s1. get_audio_input E C st = (Inr (Some v), s1) \<and> lower v = ''exit interpreter'' \<longrightarrow>
      main_try E C st =
        (case analyze_audio E C v (print (USER_NAME C @ '': '' @ v) s1) of
           None \<Rightarrow> None
         | Some (Inl e, s) \<Rightarrow> Some (Inl e, s)
         | Some (Inr analysis, s) \<Rightarrow> speak_and_pause E analysis s) \<and>
      (\<forall>x st'. main_try E C st = Some (x, st') \<longrightarrow> x \<noteq> Inr Break)"
  proof (intro allI impI)
    fix v s1
    assume a: "get_audio_input E C st = (Inr (Some v), s1) \<and> lower v = ''exit interpreter''"
    then have "lower v \<notin> set exit_words" and "lower v \<noteq> ''start open interpreter''"
      by (simp_all add: exit_words_def)
    with a show "main_try E C st =
        (case analyze_audio E C v (print (USER_NAME C @ '': '' @ v) s1) of
           None \<Rightarrow> None
         | Some (Inl e, s) \<Rightarrow> Some (Inl e, s)
         | Some (Inr analysis, s) \<Rightarrow> speak_and_pause E analysis s) \<and>
      (\<forall>x st'. main_try E C st = Some (x, st') \<longrightarrow> x \<noteq> Inr Break)"
      by (intro main_try_query) simp_all
  qed
qed

lemma script_capture:
  "fst (get_audio_input script_env demo_config ready) = Inr (Some ''Start Open Interpreter'')"
  by (simp add: get_audio_input_def transcribe_captured_def transcribe_audio_def
        script_env_def completed_env_def demo_env_def demo_config_def ready_def heard_def
        emit_def print_def strip_def lstrip_def whitespace_def)

lemma script_session:
  "map_option (\<lambda>y. (fst y, filter (\<lambda>ev. session_entry ev \<or> remote_call ev) (trace (snd y))))
     (main_try script_env demo_config ready) =
   Some (Inr Fall_through,
     [Transcriptions_create ''whisper-1'' ''/tmp/tmp1.wav'',
      Print session_start,
      Speech_create ''tts-1'' ''onyx''
        ''Entering Open Interpreter mode. Say 'Exit Interpreter' to end the session.'',
      Transcriptions_create ''whisper-1'' ''/tmp/tmp1.wav'',
      Interpreter_chat ''Goodbye'',
      Speech_create ''tts-1'' ''onyx'' ''done'',
      Transcriptions_create ''whisper-1'' ''/tmp/tmp1.wav'',
      Speech_create ''tts-1'' ''onyx'' ''Exiting Open Interpreter mode.'',
      Speech_create ''tts-1'' ''nova'' ''Open Interpreter session ended.''])"
  by (simp add: main_try_def exit_words_def
        dispatch_def open_interpreter_session_def interpreter_loop.simps
        interpreter_turn_def get_audio_input_def transcribe_captured_def transcribe_audio_def
        play_audio_def speak_onyx_def speak_and_pause_def script_env_def completed_env_def
        demo_env_def heard_def lower_def lower_char_def strip_def lstrip_def whitespace_def emit_def
        print_def ready_def demo_config_def session_start_def)

lemma inner_exit_capture:
  "get_audio_input inner_exit_env demo_config ready =
     (Inr (Some ''Exit Interpreter''),
      ready\<lparr>trace :=
        [Microphone_enter, Print ''Listening for speech...'', Adjust_for_ambient_noise,
         Listen 5 10, Print ''Processing...'', Microphone_exit,
         Named_temporary_file, Temp_write ''/tmp/tmp1.wav'' ''wav'', File_open ''/tmp/tmp1.wav'',
         Transcriptions_create ''whisper-1'' ''/tmp/tmp1.wav'', Print_transcribe_time,
         Unlink ''/tmp/tmp1.wav'', Print ''Transcribed audio: Exit Interpreter'']\<rparr>)"
  by (simp add: get_audio_input_def transcribe_captured_def transcribe_audio_def
        inner_exit_env_def completed_env_def demo_env_def demo_config_def ready_def
        emit_def print_def strip_def lstrip_def whitespace_def)

lemma inner_exit_query:
  "map_option (\<lambda>y. (fst y, filter remote_call (trace (snd y))))
     (main_try inner_exit_env demo_config ready) =
   Some (Inr Fall_through,
     [Transcriptions_create ''whisper-1'' ''/tmp/tmp1.wav'',
      Threads_create,
      Messages_create ''thread_1'' ''user'' ''Exit Interpreter'',
      Runs_create ''thread_1'' ''asst_1'' (run_instructions demo_config),
      Runs_retrieve ''thread_1'' ''run_1'',
      Messages_list ''thread_1'' ''desc'' 1,
      Speech_create ''tts-1'' ''nova'' ''Hello, Sam.''])"
  by (simp add: main_try_def get_audio_input_def transcribe_captured_def transcribe_audio_def
        strip_def lstrip_def whitespace_def dispatch_def exit_words_def
        analyze_audio_def analyze_body_def get_or_create_thread_def create_thread_def
        submit_query_def await_reply_def poll_run_unfold status_at_def after_polls_def
        fetch_reply_def speak_and_pause_def play_audio_def
        inner_exit_env_def completed_env_def demo_env_def demo_config_def ready_def
        lower_def lower_char_def emit_def print_def)

theorem trigger_enters_session_once_witness:
  "fst (get_audio_input script_env demo_config ready) = Inr (Some ''Start Open Interpreter'') \<and>
   lower ''Start Open Interpreter'' = ''start open interpreter'' \<and>
   lower ''Start Open Interpreter'' \<notin> set exit_words \<and>
   map_option (\<lambda>y. (fst y, filter (\<lambda>ev. session_entry ev \<or> remote_call ev) (trace (snd y))))
     (main_try script_env demo_config ready) =
   Some (Inr Fall_through,
     [Transcriptions_create ''whisper-1'' ''/tmp/tmp1.wav'',
      Print session_start,
      Speech_create ''tts-1'' ''onyx''
        ''Entering Open Interpreter mode. Say 'Exit Interpreter' to end the session.'',
      Transcriptions_create ''whisper-1'' ''/tmp/tmp1.wav'',
      Interpreter_chat ''Goodbye'',
      Speech_create ''tts-1'' ''onyx'' ''done'',
      Transcriptions_create ''whisper-1'' ''/tmp/tmp1.wav'',
      Speech_create ''tts-1'' ''onyx'' ''Exiting Open Interpreter mode.'',
      Speech_create ''tts-1'' ''nova'' ''Open Interpreter session ended.'']) \<and>
   (\<exists>x st'. main_try script_env demo_config ready = Some (x, st') \<and>
      length (filter session_entry (drop (length (trace ready)) (trace st'))) = 1) \<and>
   fst (get_audio_input demo_env demo_config ready) = Inr (Some ''Quit'') \<and>
   lower ''Quit'' \<in> set exit_words \<and>
   (\<forall>r. fst (interpreter_turn demo_env demo_config ready) \<noteq> Inr (Some r)) \<and>
   fst (get_audio_input inner_exit_env demo_config ready) = Inr (Some ''Exit Interpreter'') \<and>
   lower ''Exit Interpreter'' = ''exit interpreter'' \<and>
   map_option (\<lambda>y. (fst y, filter remote_call (trace (snd y))))
     (main_try inner_exit_env demo_config ready) =
   Some (Inr Fall_through,
     [Transcriptions_create ''whisper-1'' ''/tmp/tmp1.wav'',
      Threads_create,
      Messages_create ''thread_1'' ''user'' ''Exit Interpreter'',
      Runs_create ''thread_1'' ''asst_1'' (run_instructions demo_config),
      Runs_retrieve ''thread_1'' ''run_1'',
      Messages_list ''thread_1'' ''desc'' 1,
      Speech_create ''tts-1'' ''nova'' ''Hello, Sam.''])"
proof -
  have t: "lower ''Start Open Interpreter'' = ''start open interpreter''"
    by (simp add: lower_def lower_char_def)
  have q: "lower ''Quit'' \<in> set exit_words"
    by (simp add: lower_def lower_char_def exit_words_def)
  have x: "lower ''Exit Interpreter'' = ''exit interpreter''"
    by (simp add: lower_def lower_char_def)
  have g0: "fst (get_audio_input script_env demo_config ready) =
              Inr (Some ''Start Open Interpreter'')"
    by (rule script_capture)
  have g1: "fst (get_audio_input demo_env demo_config ready) = Inr (Some ''Quit'')"
    by (simp add: demo_capture)
  have g2: "fst (get_audio_input inner_exit_env demo_config ready) =
              Inr (Some ''Exit Interpreter'')"
    by (simp add: inner_exit_capture)
  have n: "lower ''Start Open Interpreter'' \<notin> set exit_words"
    by (rule trigger_enters_session_once
               [of script_env demo_config ready "''Start Open Interpreter''",
                THEN conjunct2, THEN conjunct1, THEN mp, OF t, THEN conjunct1])
  obtain s1 where s1: "get_audio_input script_env demo_config ready =
                         (Inr (Some ''Start Open Interpreter''), s1)"
    using g0 by (cases "get_audio_input script_env demo_config ready") simp
  obtain y where y: "main_try script_env demo_config ready = Some y"
    using script_session by (cases "main_try script_env demo_config ready") simp_all
  obtain x0 st0 where y0: "main_try script_env demo_config ready = Some (x0, st0)"
    using y by (cases y) simp
  have "length (filter session_entry (drop (length (trace ready)) (trace st0))) = 1"
    by (rule trigger_enters_session_once
               [of script_env demo_config ready "[]",
                THEN conjunct1, THEN spec, THEN spec, THEN mp, OF conjI [OF s1 t],
                THEN conjunct2, THEN spec, THEN spec, THEN mp, OF y0])
  with y0 have e: "\<exists>x st'. main_try script_env demo_config ready = Some (x, st') \<and>
      length (filter session_entry (drop (length (trace ready)) (trace st'))) = 1"
    by (intro exI conjI)
  have f: "\<forall>r. fst (interpreter_turn demo_env demo_config ready) \<noteq> Inr (Some r)"
    by (rule trigger_enters_session_once
               [of demo_env demo_config ready "[]",
                THEN conjunct2, THEN conjunct2, THEN conjunct2, THEN conjunct2,
                THEN conjunct1, THEN spec, THEN spec, THEN mp, OF conjI [OF demo_capture q],
                THEN conjunct1])
  from g0 t n script_session e g1 q f g2 x inner_exit_query show ?thesis by (intro conjI)
qed

subsection \<open>Exceptions raised by the remote service inside \<^verbatim>\<open>analyze_audio\<close>\<close>

lemma analyze_audio_acquired:
  assumes "thread_acquired E st tid st1"
  shows "analyze_audio E C user_prompt st =
           map_option (handled C) (submit_query E C tid user_prompt st1)"
proof -
  from assms have "truthy (client_api_key E)" and "truthy (assistant_id st)"
    by (simp_all add: thread_acquired_def)
  then show ?thesis
    by (simp add: analyze_audio_handled analyze_body_acquired [OF assms])
qed

lemma analyze_audio_creation_raises:
  assumes "truthy (client_api_key E)" and "truthy (assistant_id st)"
    and "get_or_create_thread E st = create_thread E s"
    and "threads_create E (trace (emit Threads_create s)) = Inl e" and "is_Exception e"
  shows "analyze_audio E C user_prompt st =
           Some (Inr thread_failure,
                 print (''Error creating thread: '' @ str_exc e) (emit Threads_create s))"
  using assms by (simp add: analyze_audio_def analyze_body_def create_thread_def Let_def)

lemma get_or_create_thread_fresh:
  "\<not> truthy (thread_id st) \<Longrightarrow> get_or_create_thread E st = create_thread E st"
  by (simp add: get_or_create_thread_def)

lemma get_or_create_thread_retrieval_raises:
  assumes "truthy (thread_id st)"
    and "threads_retrieve E (trace (emit (Threads_retrieve (the (thread_id st))) st)) = Some e"
    and "is_Exception e"
  shows "get_or_create_thread E st =
           create_thread E (print (''Error retrieving thread: '' @ str_exc e)
                              (emit (Threads_retrieve (the (thread_id st))) st))"
  using assms by (simp add: get_or_create_thread_def Let_def)

lemma analyze_audio_recreated:
  assumes k: "truthy (client_api_key E)" and a: "truthy (assistant_id st)"
    and g: "get_or_create_thread E st = create_thread E s"
    and c: "threads_create E (trace (emit Threads_create s)) = Inr new_id" and n: "new_id \<noteq> []"
  shows "analyze_audio E C user_prompt st =
           map_option (handled C)
             (submit_query E C new_id user_prompt
                (print (''New thread created with ID: '' @ new_id)
                   ((emit Threads_create s)\<lparr>thread_id := Some new_id\<rparr>)))"
proof -
  from g c have "get_or_create_thread E st =
      (Inr (Some new_id),
       print (''New thread created with ID: '' @ new_id)
         ((emit Threads_create s)\<lparr>thread_id := Some new_id\<rparr>))"
    by (simp add: create_thread_def Let_def)
  with k a n have "thread_acquired E st new_id
       (print (''New thread created with ID: '' @ new_id)
          ((emit Threads_create s)\<lparr>thread_id := Some new_id\<rparr>))"
    by (simp add: thread_acquired_def)
  then show ?thesis by (rule analyze_audio_acquired)
qed

lemma main_loop_query_turn:
  assumes g: "get_audio_input E C st = (Inr (Some v), s1)"
    and x: "lower v \<notin> set exit_words" and t: "lower v \<noteq> ''start open interpreter''"
    and a: "analyze_audio E C v (print (USER_NAME C @ '': '' @ v) s1) = Some (Inr reply, s2)"
    and p: "play_audio E reply ''nova'' (print (''Athena: '' @ reply) s2) = (None, s3)"
  shows "main_loop E C st = main_loop E C (print ''Listening for speech...'' (emit (Sleep 1) s3))"
proof -
  from main_try_query [OF g x t] a p
  have "main_try E C st = Some (Inr Fall_through, emit (Sleep 1) s3)"
    by (simp add: speak_and_pause_def)
  then show ?thesis by (subst main_loop.simps) simp
qed

text \<open>
  C6. No exception of class \<^verbatim>\<open>Exception\<close> leaves \<^verbatim>\<open>analyze_audio\<close>. With the thread handle
  acquired, an exception of that class raised by the message append, by the run creation,
  by a status poll (after any number of polls that were not terminal) or by the message
  listing is printed by the handler of \<^verbatim>\<open>analyze_audio\<close> and the result is the apology, in
  the state in which the step raised; the apology contains the user's name. The two
  thread steps are different: they are handled inside \<^verbatim>\<open>get_or_create_thread\<close>. When the
  thread creation raises, the result is the fixed thread-failure string, not the apology;
  when the retrieval of the cached handle raises and the creation that follows succeeds,
  the query goes on with the new thread, as if nothing had failed. After a query turn
  whose reply (apology or not) was spoken, the main loop goes on with the next turn; an
  exception of class \<^verbatim>\<open>Exception\<close> that reaches the loop is reported and the loop goes on;
  and a query turn never ends the loop by \<^verbatim>\<open>break\<close>, nor hands such an exception to it.
\<close>

theorem analyze_audio_catches:
  "(\<forall>e st'. analyze_audio E C user_prompt st = Some (Inl e, st') \<longrightarrow> \<not> is_Exception e) \<and>
   (\<forall>tid st1 e.
      thread_acquired E st tid st1 \<and>
      messages_create E (trace (emit (Messages_create tid ''user'' user_prompt) st1)) = Some e \<and>
      is_Exception e \<longrightarrow>
      analyze_audio E C user_prompt st =
        Some (Inr (apology C),
              print (''Error in analyze_audio: '' @ str_exc e)
                (emit (Messages_create tid ''user'' user_prompt) st1))) \<and>
   (\<forall>tid st1 e.
      thread_acquired E st tid st1 \<and>
      messages_create E (trace (emit (Messages_create tid ''user'' user_prompt) st1)) = None \<and>
      runs_create E
        (trace (emit (Runs_create tid (the (assistant_id st1)) (run_instructions C))
                  (emit (Messages_create tid ''user'' user_prompt) st1))) = Inl e \<and>
      is_Exception e \<longrightarrow>
      analyze_audio E C user_prompt st =
        Some (Inr (apology C),
              print (''Error in analyze_audio: '' @ str_exc e)
                (emit (Runs_create tid (the (assistant_id st1)) (run_instructions C))
                   (emit (Messages_create tid ''user'' user_prompt) st1)))) \<and>
   (\<forall>tid rid st2 k e.
      run_created E C user_prompt st tid rid st2 \<and>
      (\<forall>j<k. exit_of (status_at E tid rid st2 j) = None) \<and>
      status_at E tid rid st2 k = Inl e \<and> is_Exception e \<longrightarrow>
      analyze_audio E C user_prompt st =
        Some (Inr (apology C),
              print (''Error in analyze_audio: '' @ str_exc e) (after_polls tid rid k st2))) \<and>
   (\<forall>tid rid st2 k e.
      run_created E C user_prompt st tid rid st2 \<and>
      (\<forall>j<k. exit_of (status_at E tid rid st2 j) = None) \<and>
      status_at E tid rid st2 k = Inr ''completed'' \<and>
      messages_list E
        (trace (emit (Messages_list tid ''desc'' 1) (after_polls tid rid k st2))) = Inl e \<and>
      is_Exception e \<longrightarrow>
      analyze_audio E C user_prompt st =
        Some (Inr (apology C),
              print (''Error in analyze_audio: '' @ str_exc e)
                (emit (Messages_list tid ''desc'' 1) (after_polls tid rid k st2)))) \<and>
   sublist (USER_NAME C) (apology C) \<and>
   (\<forall>e. truthy (client_api_key E) \<and> truthy (assistant_id st) \<and> \<not> truthy (thread_id st) \<and>
        threads_create E (trace (emit Threads_create st)) = Inl e \<and> is_Exception e \<longrightarrow>
      analyze_audio E C user_prompt st =
        Some (Inr thread_failure,
              print (''Error creating thread: '' @ str_exc e) (emit Threads_create st))) \<and>
   (\<forall>e s.
      truthy (client_api_key E) \<and> truthy (assistant_id st) \<and> truthy (thread_id st) \<and>
      threads_retrieve E (trace (emit (Threads_retrieve (the (thread_id st))) st)) = Some e \<and>
      is_Exception e \<and>
      s = print (''Error retrieving thread: '' @ str_exc e)
            (emit (Threads_retrieve (the (thread_id st))) st) \<longrightarrow>
      (\<forall>e'. threads_create E (trace (emit Threads_create s)) = Inl e' \<and> is_Exception e' \<longrightarrow>
         analyze_audio E C user_prompt st =
           Some (Inr thread_failure,
                 print (''Error creating thread: '' @ str_exc e') (emit Threads_create s))) \<and>
      (\<forall>new_id. threads_create E (trace (emit Threads_create s)) = Inr new_id \<and>
                new_id \<noteq> [] \<longrightarrow>
         analyze_audio E C user_prompt st =
           map_option (handled C)
             (submit_query E C new_id user_prompt
                (print (''New thread created with ID: '' @ new_id)
                   ((emit Threads_create s)\<lparr>thread_id := Some new_id\<rparr>))))) \<and>
   (\<forall>v s1 reply s2 s3.
      get_audio_input E C st = (Inr (Some v), s1) \<and>
      lower v \<notin> set exit_words \<and> lower v \<noteq> ''start open interpreter'' \<and>
      analyze_audio E C v (print (USER_NAME C @ '': '' @ v) s1) = Some (Inr reply, s2) \<and>
      play_audio E reply ''nova'' (print (''Athena: '' @ reply) s2) = (None, s3) \<longrightarrow>
      main_loop E C st =
        main_loop E C (print ''Listening for speech...'' (emit (Sleep 1) s3))) \<and>
   (\<forall>e s1 s2. main_try E C st = Some (Inl e, s1) \<and> is_Exception e \<and>
              error_handler E e s1 = (None, s2) \<longrightarrow>
      main_loop E C st = main_loop E C (print ''Listening for speech...'' s2)) \<and>
   (\<forall>x st'. lower user_prompt \<noteq> ''start open interpreter'' \<and>
             dispatch E C user_prompt st = Some (x, st') \<longrightarrow>
      x = Inr Fall_through \<or> (\<exists>e. x = Inl e \<and> \<not> is_Exception e))"
proof (intro conjI allI impI)
  fix e st' assume "analyze_audio E C user_prompt st = Some (Inl e, st')"
  then show "\<not> is_Exception e" by (rule analyze_audio_only_interrupt)
next
  fix tid st1 e
  assume h: "thread_acquired E st tid st1 \<and>
      messages_create E (trace (emit (Messages_create tid ''user'' user_prompt) st1)) = Some e \<and>
      is_Exception e"
  then have "analyze_audio E C user_prompt st =
           map_option (handled C) (submit_query E C tid user_prompt st1)"
    by (simp add: analyze_audio_acquired)
  with h show "analyze_audio E C user_prompt st =
        Some (Inr (apology C),
              print (''Error in analyze_audio: '' @ str_exc e)
                (emit (Messages_create tid ''user'' user_prompt) st1))"
    by (simp add: submit_query_def Let_def)
next
  fix tid st1 e
  assume h: "thread_acquired E st tid st1 \<and>
      messages_create E (trace (emit (Messages_create tid ''user'' user_prompt) st1)) = None \<and>
      runs_create E
        (trace (emit (Runs_create tid (the (assistant_id st1)) (run_instructions C))
                  (emit (Messages_create tid ''user'' user_prompt) st1))) = Inl e \<and>
      is_Exception e"
  then have "analyze_audio E C user_prompt st =
           map_option (handled C) (submit_query E C tid user_prompt st1)"
    by (simp add: analyze_audio_acquired)
  moreover have "assistant_id (emit (Messages_create tid ''user'' user_prompt) st1) =
                 assistant_id st1"
    by (simp add: emit_def)
  ultimately show "analyze_audio E C user_prompt st =
        Some (Inr (apology C),
              print (''Error in analyze_audio: '' @ str_exc e)
                (emit (Runs_create tid (the (assistant_id st1)) (run_instructions C))
                   (emit (Messages_create tid ''user'' user_prompt) st1)))"
    using h by (simp add: submit_query_def Let_def)
next
  fix tid rid st2 k e
  assume h: "run_created E C user_prompt st tid rid st2 \<and>
      (\<forall>j<k. exit_of (status_at E tid rid st2 j) = None) \<and>
      status_at E tid rid st2 k = Inl e \<and> is_Exception e"
  then have "await_reply E C tid rid st2 = Some (Inl e, after_polls tid rid k st2)"
    using await_reply_exit_at [of k E tid rid st2 "Poll_raise e" C] by simp
  moreover from h have "run_created E C user_prompt st tid rid st2" by simp
  ultimately show "analyze_audio E C user_prompt st =
        Some (Inr (apology C),
              print (''Error in analyze_audio: '' @ str_exc e) (after_polls tid rid k st2))"
    using h by (simp add: analyze_audio_created [of E C user_prompt st tid rid st2])
next
  fix tid rid st2 k e
  assume h: "run_created E C user_prompt st tid rid st2 \<and>
      (\<forall>j<k. exit_of (status_at E tid rid st2 j) = None) \<and>
      status_at E tid rid st2 k = Inr ''completed'' \<and>
      messages_list E
        (trace (emit (Messages_list tid ''desc'' 1) (after_polls tid rid k st2))) = Inl e \<and>
      is_Exception e"
  then have "await_reply E C tid rid st2 =
               Some (fetch_reply E C tid (after_polls tid rid k st2))"
    using await_reply_exit_at [of k E tid rid st2 Poll_break C] by simp
  moreover from h have "fetch_reply E C tid (after_polls tid rid k st2) =
      (Inl e, emit (Messages_list tid ''desc'' 1) (after_polls tid rid k st2))"
    by (simp add: fetch_reply_def Let_def)
  ultimately show "analyze_audio E C user_prompt st =
        Some (Inr (apology C),
              print (''Error in analyze_audio: '' @ str_exc e)
                (emit (Messages_list tid ''desc'' 1) (after_polls tid rid k st2)))"
    using h by (simp add: analyze_audio_created [of E C user_prompt st tid rid st2])
next
  show "sublist (USER_NAME C) (apology C)" by (rule sublist_apology)
next
  fix e
  assume "truthy (client_api_key E) \<and> truthy (assistant_id st) \<and> \<not> truthy (thread_id st) \<and>
        threads_create E (trace (emit Threads_create st)) = Inl e \<and> is_Exception e"
  then show "analyze_audio E C user_prompt st =
        Some (Inr thread_failure,
              print (''Error creating thread: '' @ str_exc e) (emit Threads_create st))"
    by (intro analyze_audio_creation_raises get_or_create_thread_fresh) simp_all
next
  fix e s e'
  assume h: "truthy (client_api_key E) \<and> truthy (assistant_id st) \<and> truthy (thread_id st) \<and>
      threads_retrieve E (trace (emit (Threads_retrieve (the (thread_id st))) st)) = Some e \<and>
      is_Exception e \<and>
      s = print (''Error retrieving thread: '' @ str_exc e)
            (emit (Threads_retrieve (the (thread_id st))) st)"
    and c: "threads_create E (trace (emit Threads_create s)) = Inl e' \<and> is_Exception e'"
  from h have "get_or_create_thread E st = create_thread E s"
    by (simp add: get_or_create_thread_retrieval_raises)
  with h c show "analyze_audio E C user_prompt st =
           Some (Inr thread_failure,
                 print (''Error creating thread: '' @ str_exc e') (emit Threads_create s))"
    by (intro analyze_audio_creation_raises) simp_all
next
  fix e s new_id
  assume h: "truthy (client_api_key E) \<and> truthy (assistant_id st) \<and> truthy (thread_id st) \<and>
      threads_retrieve E (trace (emit (Threads_retrieve (the (thread_id st))) st)) = Some e \<and>
      is_Exception e \<and>
      s = print (''Error retrieving thread: '' @ str_exc e)
            (emit (Threads_retrieve (the (thread_id st))) st)"
    and c: "threads_create E (trace (emit Threads_create s)) = Inr new_id \<and> new_id \<noteq> []"
  from h have "get_or_create_thread E st = create_thread E s"
    by (simp add: get_or_create_thread_retrieval_raises)
  with h c show "analyze_audio E C user_prompt st =
           map_option (handled C)
             (submit_query E C new_id user_prompt
                (print (''New thread created with ID: '' @ new_id)
                   ((emit Threads_create s)\<lparr>thread_id := Some new_id\<rparr>)))"
    by (intro analyze_audio_recreated) simp_all
next
  fix v s1 reply s2 s3
  assume h: "get_audio_input E C st = (Inr (Some v), s1) \<and>
      lower v \<notin> set exit_words \<and> lower v \<noteq> ''start open interpreter'' \<and>
      analyze_audio E C v (print (USER_NAME C @ '': '' @ v) s1) = Some (Inr reply, s2) \<and>
      play_audio E reply ''nova'' (print (''Athena: '' @ reply) s2) = (None, s3)"
  from h have g: "get_audio_input E C st = (Inr (Some v), s1)" by (rule conjunct1)
  from h have x: "lower v \<notin> set exit_words" by (elim conjE)
  from h have t: "lower v \<noteq> ''start open interpreter''" by (elim conjE)
  from h have a: "analyze_audio E C v (print (USER_NAME C @ '': '' @ v) s1) =
                    Some (Inr reply, s2)"
    by (elim conjE)
  from h have p: "play_audio E reply ''nova'' (print (''Athena: '' @ reply) s2) = (None, s3)"
    by (elim conjE)
  from g x t a p show "main_loop E C st =
        main_loop E C (print ''Listening for speech...'' (emit (Sleep 1) s3))"
    by (rule main_loop_query_turn)
next
  fix e s1 s2
  assume h: "main_try E C st = Some (Inl e, s1) \<and> is_Exception e \<and>
              error_handler E e s1 = (None, s2)"
  from h have m: "main_try E C st = Some (Inl e, s1)" by (rule conjunct1)
  from h have i: "is_Exception e" by (elim conjE)
  from h have r: "error_handler E e s1 = (None, s2)" by (elim conjE)
  from m i r show "main_loop E C st = main_loop E C (print ''Listening for speech...'' s2)"
    by (rule main_loop_survives_exception)
next
  fix x st'
  assume "lower user_prompt \<noteq> ''start open interpreter'' \<and>
          dispatch E C user_prompt st = Some (x, st')"
  then show "x = Inr Fall_through \<or> (\<exists>e. x = Inl e \<and> \<not> is_Exception e)"
    using dispatch_query_cases by blast
qed

lemma failing_query_run:
  "map_option (\<lambda>y. (fst y, filter remote_call (trace (snd y))))
     (main_loop failing_query_env demo_config ready) =
   Some (None,
     [Transcriptions_create ''whisper-1'' ''/tmp/tmp1.wav'',
      Threads_create,
      Messages_create ''thread_1'' ''user'' ''What is the weather'',
      Runs_create ''thread_1'' ''asst_1'' (run_instructions demo_config),
      Speech_create ''tts-1'' ''nova'' (apology demo_config),
      Transcriptions_create ''whisper-1'' ''/tmp/tmp1.wav'',
      Speech_create ''tts-1'' ''nova'' ''Goodbye, Sam! Have a great day.''])"
  by (simp add: main_loop.simps main_try_def exit_words_def farewell_def Let_def
        dispatch_def speak_and_pause_def
        analyze_audio_def analyze_body_def get_or_create_thread_def create_thread_def
        submit_query_def
        get_audio_input_def transcribe_captured_def transcribe_audio_def play_audio_def
        failing_query_env_def demo_env_def heard_def lower_def lower_char_def
        strip_def lstrip_def whitespace_def emit_def print_def ready_def demo_config_def)

theorem analyze_audio_catches_witness:
  "thread_acquired run_error_env ready ''thread_1''
     \<lparr>thread_id = Some ''thread_1'', assistant_id = Some ''asst_1'',
      trace = [Threads_create, Print ''New thread created with ID: thread_1'']\<rparr> \<and>
   runs_create run_error_env
     [Threads_create, Print ''New thread created with ID: thread_1'',
      Messages_create ''thread_1'' ''user'' ''hello'',
      Runs_create ''thread_1'' ''asst_1'' (run_instructions demo_config)] =
     Inl (Exception ''rate limit'') \<and>
   is_Exception (Exception ''rate limit'') \<and>
   analyze_audio run_error_env demo_config ''hello'' ready =
     Some (Inr ''I'm sorry, Sam, I encountered an error while processing your request. How can I help you differently?'',
           \<lparr>thread_id = Some ''thread_1'', assistant_id = Some ''asst_1'',
            trace = [Threads_create, Print ''New thread created with ID: thread_1'',
                     Messages_create ''thread_1'' ''user'' ''hello'',
                     Runs_create ''thread_1'' ''asst_1'' (run_instructions demo_config),
                     Print ''Error in analyze_audio: rate limit'']\<rparr>) \<and>
   fst (get_audio_input failing_query_env demo_config ready) =
     Inr (Some ''What is the weather'') \<and>
   lower ''What is the weather'' \<notin> set exit_words \<and>
   lower ''What is the weather'' \<noteq> ''start open interpreter'' \<and>
   main_loop failing_query_env demo_config ready =
     main_loop failing_query_env demo_config
       \<lparr>thread_id = Some ''thread_1'', assistant_id = Some ''asst_1'',
        trace =
          [Microphone_enter, Print ''Listening for speech...'', Adjust_for_ambient_noise,
           Listen 5 10, Print ''Processing...'', Microphone_exit,
           Named_temporary_file, Temp_write ''/tmp/tmp1.wav'' ''wav'',
           File_open ''/tmp/tmp1.wav'',
           Transcriptions_create ''whisper-1'' ''/tmp/tmp1.wav'', Print_transcribe_time,
           Unlink ''/tmp/tmp1.wav'', Print ''Transcribed audio: What is the weather'',
           Print ''Sam: What is the weather'',
           Threads_create, Print ''New thread created with ID: thread_1'',
           Messages_create ''thread_1'' ''user'' ''What is the weather'',
           Runs_create ''thread_1'' ''asst_1'' (run_instructions demo_config),
           Print ''Error in analyze_audio: rate limit'',
           Print (''Athena: '' @ apology demo_config),
           Speech_create ''tts-1'' ''nova'' (apology demo_config),
           From_file ''mp3'', Play ''pcm'', Sleep 1,
           Print ''Listening for speech...'']\<rparr> \<and>
   map_option (\<lambda>y. (fst y, filter remote_call (trace (snd y))))
     (main_loop failing_query_env demo_config ready) =
   Some (None,
     [Transcriptions_create ''whisper-1'' ''/tmp/tmp1.wav'',
      Threads_create,
      Messages_create ''thread_1'' ''user'' ''What is the weather'',
      Runs_create ''thread_1'' ''asst_1'' (run_instructions demo_config),
      Speech_create ''tts-1'' ''nova'' (apology demo_config),
      Transcriptions_create ''whisper-1'' ''/tmp/tmp1.wav'',
      Speech_create ''tts-1'' ''nova'' ''Goodbye, Sam! Have a great day.''])"
proof -
  let ?E = failing_query_env
  let ?t1 = "\<lparr>thread_id = Some ''thread_1'', assistant_id = Some ''asst_1'',
      trace = [Threads_create, Print ''New thread created with ID: thread_1'']\<rparr>"
  let ?s1 = "ready\<lparr>trace :=
          [Microphone_enter, Print ''Listening for speech...'', Adjust_for_ambient_noise,
           Listen 5 10, Print ''Processing...'', Microphone_exit,
           Named_temporary_file, Temp_write ''/tmp/tmp1.wav'' ''wav'',
           File_open ''/tmp/tmp1.wav'',
           Transcriptions_create ''whisper-1'' ''/tmp/tmp1.wav'', Print_transcribe_time,
           Unlink ''/tmp/tmp1.wav'', Print ''Transcribed audio: What is the weather'']\<rparr>"
  let ?s2 = "\<lparr>thread_id = Some ''thread_1'', assistant_id = Some ''asst_1'',
        trace =
          [Microphone_enter, Print ''Listening for speech...'', Adjust_for_ambient_noise,
           Listen 5 10, Print ''Processing...'', Microphone_exit,
           Named_temporary_file, Temp_write ''/tmp/tmp1.wav'' ''wav'',
           File_open ''/tmp/tmp1.wav'',
           Transcriptions_create ''whisper-1'' ''/tmp/tmp1.wav'', Print_transcribe_time,
           Unlink ''/tmp/tmp1.wav'', Print ''Transcribed audio: What is the weather'',
           Print ''Sam: What is the weather'',
           Threads_create, Print ''New thread created with ID: thread_1'',
           Messages_create ''thread_1'' ''user'' ''What is the weather'',
           Runs_create ''thread_1'' ''asst_1'' (run_instructions demo_config),
           Print ''Error in analyze_audio: rate limit'']\<rparr>"
  let ?s3 = "\<lparr>thread_id = Some ''thread_1'', assistant_id = Some ''asst_1'',
        trace =
          [Microphone_enter, Print ''Listening for speech...'', Adjust_for_ambient_noise,
           Listen 5 10, Print ''Processing...'', Microphone_exit,
           Named_temporary_file, Temp_write ''/tmp/tmp1.wav'' ''wav'',
           File_open ''/tmp/tmp1.wav'',
           Transcriptions_create ''whisper-1'' ''/tmp/tmp1.wav'', Print_transcribe_time,
           Unlink ''/tmp/tmp1.wav'', Print ''Transcribed audio: What is the weather'',
           Print ''Sam: What is the weather'',
           Threads_create, Print ''New thread created with ID: thread_1'',
           Messages_create ''thread_1'' ''user'' ''What is the weather'',
           Runs_create ''thread_1'' ''asst_1'' (run_instructions demo_config),
           Print ''Error in analyze_audio: rate limit'',
           Print (''Athena: '' @ apology demo_config),
           Speech_create ''tts-1'' ''nova'' (apology demo_config),
           From_file ''mp3'', Play ''pcm'']\<rparr>"
  have acq: "thread_acquired run_error_env ready ''thread_1'' ?t1"
    by (simp add: thread_acquired_def get_or_create_thread_def create_thread_def
          run_error_env_def demo_env_def ready_def emit_def print_def)
  have app: "messages_create run_error_env
               (trace (emit (Messages_create ''thread_1'' ''user'' ''hello'') ?t1)) = None"
    by (simp add: run_error_env_def demo_env_def)
  have run: "runs_create run_error_env
               (trace (emit (Runs_create ''thread_1'' (the (assistant_id ?t1))
                               (run_instructions demo_config))
                         (emit (Messages_create ''thread_1'' ''user'' ''hello'') ?t1))) =
             Inl (Exception ''rate limit'')"
    by (simp add: run_error_env_def demo_env_def)
  have run': "runs_create run_error_env
     [Threads_create, Print ''New thread created with ID: thread_1'',
      Messages_create ''thread_1'' ''user'' ''hello'',
      Runs_create ''thread_1'' ''asst_1'' (run_instructions demo_config)] =
     Inl (Exception ''rate limit'')"
    by (simp add: run_error_env_def demo_env_def)
  have exc: "is_Exception (Exception ''rate limit'')" by simp
  have "analyze_audio run_error_env demo_config ''hello'' ready =
        Some (Inr (apology demo_config),
              print (''Error in analyze_audio: '' @ str_exc (Exception ''rate limit''))
                (emit (Runs_create ''thread_1'' (the (assistant_id ?t1))
                         (run_instructions demo_config))
                   (emit (Messages_create ''thread_1'' ''user'' ''hello'') ?t1)))"
    by (rule analyze_audio_catches
               [of run_error_env demo_config "''hello''" ready,
                THEN conjunct2, THEN conjunct2, THEN conjunct1,
                THEN spec, THEN spec, THEN spec, THEN mp,
                OF conjI [OF acq conjI [OF app conjI [OF run exc]]]])
  then have ans: "analyze_audio run_error_env demo_config ''hello'' ready =
     Some (Inr ''I'm sorry, Sam, I encountered an error while processing your request. How can I help you differently?'',
           \<lparr>thread_id = Some ''thread_1'', assistant_id = Some ''asst_1'',
            trace = [Threads_create, Print ''New thread created with ID: thread_1'',
                     Messages_create ''thread_1'' ''user'' ''hello'',
                     Runs_create ''thread_1'' ''asst_1'' (run_instructions demo_config),
                     Print ''Error in analyze_audio: rate limit'']\<rparr>)"
    by (simp add: apology_def emit_def print_def demo_config_def)
  have cap: "get_audio_input ?E demo_config ready = (Inr (Some ''What is the weather''), ?s1)"
    by (simp add: get_audio_input_def transcribe_captured_def transcribe_audio_def
          failing_query_env_def demo_env_def demo_config_def ready_def heard_def
          emit_def print_def strip_def lstrip_def whitespace_def)
  then have cap': "fst (get_audio_input ?E demo_config ready) =
                     Inr (Some ''What is the weather'')"
    by simp
  have x: "lower ''What is the weather'' \<notin> set exit_words"
    by (simp add: lower_def lower_char_def exit_words_def)
  have t: "lower ''What is the weather'' \<noteq> ''start open interpreter''"
    by (simp add: lower_def lower_char_def)
  have a: "analyze_audio ?E demo_config ''What is the weather''
             (print (USER_NAME demo_config @ '': '' @ ''What is the weather'') ?s1) =
           Some (Inr (apology demo_config), ?s2)"
    by (simp add: analyze_audio_def analyze_body_def get_or_create_thread_def
          create_thread_def submit_query_def
          failing_query_env_def demo_env_def ready_def emit_def print_def demo_config_def)
  have p: "play_audio ?E (apology demo_config) ''nova''
             (print (''Athena: '' @ apology demo_config) ?s2) = (None, ?s3)"
    by (simp add: play_audio_def failing_query_env_def demo_env_def emit_def print_def)
  have "main_loop ?E demo_config ready =
          main_loop ?E demo_config (print ''Listening for speech...'' (emit (Sleep 1) ?s3))"
    by (rule analyze_audio_catches
               [of ?E demo_config "[]" ready,
                THEN conjunct2, THEN conjunct2, THEN conjunct2, THEN conjunct2,
                THEN conjunct2, THEN conjunct2, THEN conjunct2, THEN conjunct2,
                THEN conjunct1,
                THEN spec, THEN spec, THEN spec, THEN spec, THEN spec, THEN mp,
                OF conjI [OF cap conjI [OF x conjI [OF t conjI [OF a p]]]]])
  then have loop: "main_loop ?E demo_config ready =
     main_loop ?E demo_config
       \<lparr>thread_id = Some ''thread_1'', assistant_id = Some ''asst_1'',
        trace =
          [Microphone_enter, Print ''Listening for speech...'', Adjust_for_ambient_noise,
           Listen 5 10, Print ''Processing...'', Microphone_exit,
           Named_temporary_file, Temp_write ''/tmp/tmp1.wav'' ''wav'',
           File_open ''/tmp/tmp1.wav'',
           Transcriptions_create ''whisper-1'' ''/tmp/tmp1.wav'', Print_transcribe_time,
           Unlink ''/tmp/tmp1.wav'', Print ''Transcribed audio: What is the weather'',
           Print ''Sam: What is the weather'',
           Threads_create, Print ''New thread created with ID: thread_1'',
           Messages_create ''thread_1'' ''user'' ''What is the weather'',
           Runs_create ''thread_1'' ''asst_1'' (run_instructions demo_config),
           Print ''Error in analyze_audio: rate limit'',
           Print (''Athena: '' @ apology demo_config),
           Speech_create ''tts-1'' ''nova'' (apology demo_config),
           From_file ''mp3'', Play ''pcm'', Sleep 1,
           Print ''Listening for speech...'']\<rparr>"
    by (simp add: emit_def print_def del: One_nat_def)
  from acq run' exc ans cap' x t loop failing_query_run show ?thesis by (intro conjI)
qed

text \<open>
  The sentence of C6 as the specification has it fails at the thread steps. With no cached
  handle and a thread creation that raises, \<^verbatim>\<open>analyze_audio\<close> returns the thread-failure
  string: it is not the apology and does not contain the user's name.
\<close>

theorem thread_creation_failure_counterexample:
  "truthy (client_api_key no_thread_env) \<and> truthy (assistant_id ready) \<and>
   threads_create no_thread_env (trace (emit Threads_create ready)) =
     Inl (Exception ''service unavailable'') \<and>
   is_Exception (Exception ''service unavailable'') \<and>
   analyze_audio no_thread_env demo_config ''hello'' ready =
     Some (Inr ''Failed to create or retrieve a thread. Cannot process the request.'',
           \<lparr>thread_id = None, assistant_id = Some ''asst_1'',
            trace = [Threads_create, Print ''Error creating thread: service unavailable'']\<rparr>) \<and>
   ''Failed to create or retrieve a thread. Cannot process the request.'' \<noteq> apology demo_config \<and>
   \<not> sublist (USER_NAME demo_config)
       ''Failed to create or retrieve a thread. Cannot process the request.''"
proof -
  have "CHR ''S'' \<in> set (USER_NAME demo_config)" by (simp add: demo_config_def)
  moreover have
    "CHR ''S'' \<notin> set ''Failed to create or retrieve a thread. Cannot process the request.''"
    by simp
  ultimately have n: "\<not> sublist (USER_NAME demo_config)
       ''Failed to create or retrieve a thread. Cannot process the request.''"
    using set_mono_sublist by blast
  have a: "analyze_audio no_thread_env demo_config ''hello'' ready =
     Some (Inr ''Failed to create or retrieve a thread. Cannot process the request.'',
           \<lparr>thread_id = None, assistant_id = Some ''asst_1'',
            trace = [Threads_create, Print ''Error creating thread: service unavailable'']\<rparr>)"
    by (simp add: analyze_audio_def analyze_body_def get_or_create_thread_def
          create_thread_def thread_failure_def no_thread_env_def demo_env_def ready_def
          emit_def print_def)
  have d: "''Failed to create or retrieve a thread. Cannot process the request.'' \<noteq>
           apology demo_config"
    by (simp add: apology_def)
  have k: "truthy (client_api_key no_thread_env)" "truthy (assistant_id ready)"
    by (simp_all add: no_thread_env_def demo_env_def ready_def)
  have c: "threads_create no_thread_env (trace (emit Threads_create ready)) =
             Inl (Exception ''service unavailable'')"
    by (simp add: no_thread_env_def demo_env_def)
  have e: "is_Exception (Exception ''service unavailable'')" by simp
  from k c e a d n show ?thesis by (intro conjI)
qed

end
